theory Spec2Isabelle
  imports Main "HOL-Library.Word"
begin

section \<open>Data model\<close>

text \<open>
  The wrapper generator of \<^verbatim>\<open>HandshakeVerilatorWrapper.cpp\<close> reads three MLIR operations
  (the software function, the handshake reference function and the FIRRTL kernel module)
  and writes C++ text to an indented output stream. The operations are modelled by the
  parts of them that the generator reads.
\<close>

text \<open>MLIR types of the software function. A memref carries its shape (a list of 64-bit
  extents) and its element type; every other type is only ever tested for not being a
  memref.\<close>

datatype mlir_type =
    IntegerType nat
  | IndexType
  | FloatType nat
  | MemRefType (getShape: "int list") (getElementType: mlir_type)

fun isMemRef :: "mlir_type \<Rightarrow> bool" where
  "isMemRef (MemRefType shape elt) = True"
| "isMemRef t = False"

text \<open>The function type of \<^verbatim>\<open>funcOp\<close>: ordered argument and result types.\<close>

record func_op =
  getInputs :: "mlir_type list"
  getResults :: "mlir_type list"

text \<open>FIRRTL types: a ground type is represented by the value that
  \<^verbatim>\<open>getBitWidthOrSentinel()\<close> returns for it (a signed 32-bit integer, negative when
  the width is not known); a bundle is an ordered list of named elements.\<close>

datatype firrtl_type =
    GroundType int
  | BundleType "(string \<times> firrtl_type) list"

fun getBitWidthOrSentinel :: "firrtl_type \<Rightarrow> int" where
  "getBitWidthOrSentinel (GroundType w) = w"
| "getBitWidthOrSentinel (BundleType elts) = - 2"

text \<open>\<^verbatim>\<open>BundleType::getElement(name)\<close>: the first element of that name, if any.\<close>

fun getElement :: "(string \<times> firrtl_type) list \<Rightarrow> string \<Rightarrow> firrtl_type option" where
  "getElement [] name = None"
| "getElement ((n, t) # elts) name = (if n = name then Some t else getElement elts name)"

text \<open>The FIRRTL module: its ordered ports, each a name and a type.\<close>

record fmodule =
  getPorts :: "(string \<times> firrtl_type) list"

text \<open>The handshake reference function: its location and, for every block argument, the
  operations that use it, one entry per use.\<close>

datatype hs_operation =
    ExternalMemoryOp (getLdCount: nat) (getStCount: nat)
  | OtherOperation string

record handshake_func =
  getLoc :: string
  getArgUsers :: "hs_operation list list"

text \<open>An \<^verbatim>\<open>Operation *\<close> handed to the wrapper is one of these, or null (\<open>None\<close>).\<close>

datatype operation =
    HandshakeFuncOp handshake_func
  | FModuleLikeOp fmodule
  | OtherOp string

text \<open>Diagnostics reported through an operation.\<close>

datatype diagnostic =
    EmitError operation string
  | EmitOpError operation string

subsection \<open>Results and ways of stopping\<close>

text \<open>A step returns a \<^verbatim>\<open>LogicalResult\<close>, or the process stops: a failed
  \<^verbatim>\<open>assert\<close> (with its message), a failed \<^verbatim>\<open>cast\<close>, an index outside a
  list of the IR, or a member access through a null operation.\<close>

datatype halt =
    AssertionFailure string
  | CastFailure
  | IndexOutOfRange
  | NullDereference

datatype status = Success | Failure | Halted halt

subsection \<open>The output stream\<close>

text \<open>The output is the sequence of operations performed on the indented stream
  \<^verbatim>\<open>osi()\<close> and on the stream \<^verbatim>\<open>os()\<close> under it: a string literal of the source,
  a computed string, an integer, text written by an emitter of
  \<^verbatim>\<open>VerilatorEmitterUtils\<close> or of the base wrapper through \<^verbatim>\<open>osi()\<close>
  or directly to \<^verbatim>\<open>os()\<close>, and the two indentation calls.\<close>

datatype tok =
    Lit string
  | Str string
  | Num int
  | Ext string
  | ExtRaw string
  | Indent
  | Unindent

subsection \<open>Emitters that live outside this file\<close>

text \<open>\<^verbatim>\<open>emitVerilatorType\<close>, \<^verbatim>\<open>emitVerilatorTypeFromWidth\<close> and
  \<^verbatim>\<open>emitIOTypes\<close> are taken as parameters: each writes some text and reports
  whether it succeeded. The first two receive a location for their diagnostics.\<close>

record utils =
  emitVerilatorType :: "string \<Rightarrow> mlir_type \<Rightarrow> bool \<times> string"
  emitVerilatorTypeFromWidth :: "string \<Rightarrow> 32 word \<Rightarrow> bool \<times> string"
  emitIOTypes :: "func_op \<Rightarrow> bool \<times> string"

subsection \<open>The wrapper object\<close>

record wrapper =
  funcName :: string
  funcOp :: func_op
  hsOp :: "handshake_func option"
  firrtlOp :: "fmodule option"
  out :: "tok list"
  diags :: "diagnostic list"

definition emit :: "tok list \<Rightarrow> wrapper \<Rightarrow> wrapper" where
  "emit ts w = w\<lparr>out := out w @ ts\<rparr>"

text \<open>Sequencing of steps: \<^verbatim>\<open>if (step.failed()) return failure();\<close>. A step that
  stopped the process stops the caller too.\<close>

definition andThen ::
  "status \<times> wrapper \<Rightarrow> (wrapper \<Rightarrow> status \<times> wrapper) \<Rightarrow> status \<times> wrapper" where
  "andThen r f = (case r of (Success, w) \<Rightarrow> f w | (Failure, w) \<Rightarrow> (Failure, w)
                  | (Halted h, w) \<Rightarrow> (Halted h, w))"

text \<open>A call of one of the outside emitters on the stream: its text is written, tagged by
  \<open>k\<close> with the stream it went to, and its result returned.\<close>

definition emitExt :: "(string \<Rightarrow> tok) \<Rightarrow> bool \<times> string \<Rightarrow> wrapper \<Rightarrow> status \<times> wrapper" where
  "emitExt k r w = (if fst r then Success else Failure, emit [k (snd r)] w)"

section \<open>Strings and numbers\<close>

text \<open>\<^verbatim>\<open>std::to_string\<close> on an unsigned value: its decimal digits.\<close>

definition digit :: "nat \<Rightarrow> char" where
  "digit n = ''0123456789'' ! (n mod 10)"

fun to_string :: "nat \<Rightarrow> string" where
  "to_string n = (if n < 10 then [digit n] else to_string (n div 10) @ [digit n])"

declare to_string.simps [simp del]

text \<open>\<^verbatim>\<open>StringRef::startswith\<close>.\<close>

definition startswith :: "string \<Rightarrow> string \<Rightarrow> bool" where
  "startswith s p = (take (length p) s = p)"

text \<open>Conversion of a count or index to \<^verbatim>\<open>unsigned\<close>.\<close>

definition u32 :: "nat \<Rightarrow> nat" where
  "u32 n = n mod 2 ^ 32"

section \<open>Port names and widths\<close>

definition inCtrlIdx :: "wrapper \<Rightarrow> nat" where
  "inCtrlIdx w = length (getInputs (funcOp w))"

text \<open>\<^verbatim>\<open>firrtlOp.getPortName(idx)\<close> and \<^verbatim>\<open>firrtlOp.getPortType(idx)\<close>: through a
  module that has been set, at an index inside the port list.\<close>

definition getPort :: "wrapper \<Rightarrow> nat \<Rightarrow> halt + string \<times> firrtl_type" where
  "getPort w idx =
     (case firrtlOp w of
        None \<Rightarrow> Inl NullDereference
      | Some m \<Rightarrow> if idx < length (getPorts m) then Inr (getPorts m ! idx)
                  else Inl IndexOutOfRange)"

definition getPortName :: "wrapper \<Rightarrow> nat \<Rightarrow> halt + string" where
  "getPortName w idx = map_sum id fst (getPort w idx)"

definition getPortType :: "wrapper \<Rightarrow> nat \<Rightarrow> halt + firrtl_type" where
  "getPortType w idx = map_sum id snd (getPort w idx)"

definition getResName :: "wrapper \<Rightarrow> nat \<Rightarrow> halt + string" where
  "getResName w idx = getPortName w (u32 (idx + inCtrlIdx w + 1))"

definition getInputName :: "wrapper \<Rightarrow> nat \<Rightarrow> halt + string" where
  "getInputName w idx = getPortName w idx"

text \<open>\<^verbatim>\<open>getBundleDataWidth\<close>: the width of the bundle's \<^verbatim>\<open>data\<close> element, converted
  from the signed sentinel value to \<^verbatim>\<open>unsigned\<close>.\<close>

definition getBundleDataWidth :: "(string \<times> firrtl_type) list \<Rightarrow> halt + 32 word" where
  "getBundleDataWidth bundleType =
     (case getElement bundleType ''data'' of
        None \<Rightarrow> Inl (AssertionFailure ''Expected bundle to have a data signal'')
      | Some t \<Rightarrow> Inr (word_of_int (getBitWidthOrSentinel t)))"

text \<open>\<^verbatim>\<open>type.cast<firrtl::BundleType>()\<close>.\<close>

fun castBundleType :: "firrtl_type \<Rightarrow> halt + (string \<times> firrtl_type) list" where
  "castBundleType (BundleType elts) = Inr elts"
| "castBundleType (GroundType w) = Inl CastFailure"

section \<open>Emission helpers\<close>

definition emitHSPortCtor :: "string \<Rightarrow> bool \<Rightarrow> wrapper \<Rightarrow> wrapper" where
  "emitHSPortCtor prefix hasData w =
     (let w1 = emit [Lit ''(\"'', Str prefix, Lit ''\", ''] w;
          w2 = emit [Lit ''&dut->'', Str prefix, Lit ''_ready, ''] w1;
          w3 = emit [Lit ''&dut->'', Str prefix, Lit ''_valid''] w2;
          w4 = (if hasData then emit [Lit '', &dut->'', Str prefix, Lit ''_data''] w3 else w3)
      in emit [Lit '')''] w4)"

definition emitHSTypeAssert :: "string \<Rightarrow> string \<Rightarrow> string \<Rightarrow> wrapper \<Rightarrow> wrapper" where
  "emitHSTypeAssert type val err w =
     emit [Lit ''static_assert(std::is_same<'', Str type, Lit '', typeof('', Str val,
           Lit '')>::value, \"'', Str err, Lit ''\");\<newline>''] w"

section \<open>Expansion of a memory argument\<close>

text \<open>The loop of \<^verbatim>\<open>emitExtMemPort\<close> over the elements of the memory port's bundle:
  every element whose name starts with \<^verbatim>\<open>ldAddr\<close> or \<^verbatim>\<open>stAddr\<close> assigns
  \<^verbatim>\<open>addrWidth\<close>.\<close>

fun addrWidthLoop :: "(string \<times> firrtl_type) list \<Rightarrow> 32 word \<Rightarrow> halt + 32 word" where
  "addrWidthLoop [] addrWidth = Inr addrWidth"
| "addrWidthLoop ((name, type) # sigs) addrWidth =
     (if startswith name ''ldAddr'' \<or> startswith name ''stAddr'' then
        (case castBundleType type of
           Inl h \<Rightarrow> Inl h
         | Inr b \<Rightarrow>
             (case getBundleDataWidth b of
                Inl h \<Rightarrow> Inl h
              | Inr width \<Rightarrow> addrWidthLoop sigs width))
      else addrWidthLoop sigs addrWidth)"

text \<open>The address width of a memory port: the loop from \<^verbatim>\<open>addrWidth = 0\<close>, then
  the assertion that an address signal was found.\<close>

definition resolveAddrWidth :: "(string \<times> firrtl_type) list \<Rightarrow> halt + 32 word" where
  "resolveAddrWidth bundleType =
     (case addrWidthLoop bundleType 0 of
        Inl h \<Rightarrow> Inl h
      | Inr addrWidth \<Rightarrow>
          if 0 < addrWidth then Inr addrWidth
          else Inl (AssertionFailure ''Found no address signal in memory bundle!''))"

text \<open>The body of the load-port loop, for port \<open>i\<close>.\<close>

definition emitLoadPort ::
  "utils \<Rightarrow> string \<Rightarrow> mlir_type \<Rightarrow> 32 word \<Rightarrow> string \<Rightarrow> nat \<Rightarrow> wrapper \<Rightarrow> status \<times> wrapper" where
  "emitLoadPort U loc elemTy addrWidth name i w =
     andThen (emitExt ExtRaw (emitVerilatorType U loc elemTy)
                (emit [Str name, Lit ''->addLoadPort(\<newline>'', Indent,
                       Lit ''std::make_shared<HandshakeDataInPort<''] w))
     (\<lambda>w. andThen (emitExt ExtRaw (emitVerilatorTypeFromWidth U loc addrWidth)
                (emit [Lit '',\<newline>'', Lit ''std::make_shared<HandshakeDataOutPort<'']
                   (emitHSPortCtor (name @ ''_ldData'' @ to_string i) True
                      (emit [Lit ''>>''] w))))
     (\<lambda>w. (Success,
            emit [Lit '');\<newline>'', Unindent]
              (emitHSPortCtor (name @ ''_ldDone'' @ to_string i) False
                 (emit [Lit '',\<newline>'', Lit ''std::make_shared<HandshakeInPort>'']
                    (emitHSPortCtor (name @ ''_ldAddr'' @ to_string i) True
                       (emit [Lit ''>>''] w)))))))"

text \<open>The body of the store-port loop, for port \<open>i\<close>.\<close>

definition emitStorePort ::
  "utils \<Rightarrow> string \<Rightarrow> mlir_type \<Rightarrow> 32 word \<Rightarrow> string \<Rightarrow> nat \<Rightarrow> wrapper \<Rightarrow> status \<times> wrapper" where
  "emitStorePort U loc elemTy addrWidth name i w =
     andThen (emitExt ExtRaw (emitVerilatorType U loc elemTy)
                (emit [Str name, Lit ''->addStorePort(\<newline>'', Indent,
                       Lit ''std::make_shared<HandshakeDataOutPort<''] w))
     (\<lambda>w. andThen (emitExt ExtRaw (emitVerilatorTypeFromWidth U loc addrWidth)
                (emit [Lit '',\<newline>'', Lit ''std::make_shared<HandshakeDataOutPort<'']
                   (emitHSPortCtor (name @ ''_stData'' @ to_string i) True
                      (emit [Lit ''>>''] w))))
     (\<lambda>w. (Success,
            emit [Lit '');\<newline>'', Unindent]
              (emitHSPortCtor (name @ ''_stDone'' @ to_string i) False
                 (emit [Lit '',\<newline>'', Lit ''std::make_shared<HandshakeInPort>'']
                    (emitHSPortCtor (name @ ''_stAddr'' @ to_string i) True
                       (emit [Lit ''>>''] w)))))))"

text \<open>\<^verbatim>\<open>for (unsigned i = 0; i < n; ++i) body(i)\<close>, leaving at the first body that
  fails.\<close>

function forUpTo ::
  "(nat \<Rightarrow> wrapper \<Rightarrow> status \<times> wrapper) \<Rightarrow> nat \<Rightarrow> nat \<Rightarrow> wrapper \<Rightarrow> status \<times> wrapper" where
  "forUpTo body i n w =
     (if i < n then
        (case body i w of
           (Success, w') \<Rightarrow> forUpTo body (Suc i) n w'
         | (Failure, w') \<Rightarrow> (Failure, w')
         | (Halted h, w') \<Rightarrow> (Halted h, w'))
      else (Success, w))"
  by pat_completeness auto
termination
  by (relation "measure (\<lambda>(body, i, n, w). n - i)") auto

declare forUpTo.simps [simp del]

text \<open>The single user of the memory argument, as an external-memory operation.\<close>

definition getExtMemOp :: "handshake_func \<Rightarrow> nat \<Rightarrow> halt + hs_operation" where
  "getExtMemOp hs idx =
     (if idx < length (getArgUsers hs) then
        (let extMemUsers = getArgUsers hs ! idx in
         if length extMemUsers \<noteq> 1 then
           Inl (AssertionFailure ''expected exactly 1 user of a memref input argument'')
         else
           (case hd extMemUsers of
              ExternalMemoryOp l s \<Rightarrow> Inr (ExternalMemoryOp l s)
            | OtherOperation n \<Rightarrow> Inl CastFailure))
      else Inl IndexOutOfRange)"

text \<open>The memory-interface declaration, once name and address width are known.\<close>

definition emitMemDecl ::
  "utils \<Rightarrow> string \<Rightarrow> mlir_type \<Rightarrow> 32 word \<Rightarrow> string \<Rightarrow> wrapper \<Rightarrow> status \<times> wrapper" where
  "emitMemDecl U loc memref addrWidth name w =
     andThen (emitExt Ext (emitVerilatorType U loc (getElementType memref))
                (emit [Lit ''auto '', Str name,
                       Lit '' = addInputPort<HandshakeMemoryInterface<''] w))
     (\<lambda>w. andThen (emitExt Ext (emitVerilatorTypeFromWidth U loc addrWidth)
                (emit [Lit '', ''] w))
     (\<lambda>w. (Success,
            emit [Lit ''>>(/*size=*/'', Num (hd (getShape memref)), Lit '');\<newline>''] w)))"

text \<open>What follows the declaration: the user of the argument, then the two loops.\<close>

definition emitMemPorts ::
  "utils \<Rightarrow> handshake_func \<Rightarrow> mlir_type \<Rightarrow> 32 word \<Rightarrow> string \<Rightarrow> nat \<Rightarrow> wrapper \<Rightarrow> status \<times> wrapper" where
  "emitMemPorts U hs memref addrWidth name idx w =
     (case getExtMemOp hs idx of
        Inl h \<Rightarrow> (Halted h, w)
      | Inr extMemOp \<Rightarrow>
          andThen (forUpTo (emitLoadPort U (getLoc hs) (getElementType memref) addrWidth name)
                     0 (getLdCount extMemOp) w)
          (\<lambda>w. forUpTo (emitStorePort U (getLoc hs) (getElementType memref) addrWidth name)
                     0 (getStCount extMemOp) w))"

definition emitExtMemPort :: "utils \<Rightarrow> mlir_type \<Rightarrow> nat \<Rightarrow> wrapper \<Rightarrow> status \<times> wrapper" where
  "emitExtMemPort U memref idx w =
     (if length (getShape memref) \<noteq> 1 then
        (Halted (AssertionFailure ''Only support unidimensional memories''), w)
      else
        (case getInputName w idx of
           Inl h \<Rightarrow> (Halted h, w)
         | Inr name \<Rightarrow>
        (case getPortType w idx of
           Inl h \<Rightarrow> (Halted h, w)
         | Inr portType \<Rightarrow>
        (case castBundleType portType of
           Inl h \<Rightarrow> (Halted h, w)
         | Inr bundleType \<Rightarrow>
        (case resolveAddrWidth bundleType of
           Inl h \<Rightarrow> (Halted h, w)
         | Inr addrWidth \<Rightarrow>
        (case hsOp w of
           None \<Rightarrow>
             (Halted NullDereference,
              emit [Lit ''auto '', Str name,
                    Lit '' = addInputPort<HandshakeMemoryInterface<''] w)
         | Some hs \<Rightarrow>
             andThen (emitMemDecl U (getLoc hs) memref addrWidth name w)
               (emitMemPorts U hs memref addrWidth name idx)))))))"

section \<open>Scalar ports\<close>

definition typeMismatch :: string where
  "typeMismatch = ''Type mismatch between handshake data port type and actual '' @
                  ''port type. This might be a verilator version issue''"

definition emitInputPort :: "utils \<Rightarrow> mlir_type \<Rightarrow> nat \<Rightarrow> wrapper \<Rightarrow> status \<times> wrapper" where
  "emitInputPort U t idx w =
     (if isMemRef t then emitExtMemPort U t idx w
      else
        (case getInputName w idx of
           Inl h \<Rightarrow> (Halted h, w)
         | Inr arg \<Rightarrow>
             (let dataType = ''TArg'' @ to_string idx;
                  w1 = emitHSTypeAssert dataType (''dut->'' @ arg @ ''_data'') typeMismatch w;
                  w2 = emit [Lit ''addInputPort<HandshakeDataInPort<'', Str dataType,
                             Lit ''>>''] w1
              in (Success, emit [Lit '';\<newline>''] (emitHSPortCtor arg True w2)))))"

definition emitOutputPort :: "utils \<Rightarrow> mlir_type \<Rightarrow> nat \<Rightarrow> wrapper \<Rightarrow> status \<times> wrapper" where
  "emitOutputPort U t idx w =
     (case getResName w idx of
        Inl h \<Rightarrow> (Halted h, w)
      | Inr arg \<Rightarrow>
          (let dataType = ''TRes'' @ to_string idx;
               w1 = emitHSTypeAssert dataType (''dut->'' @ arg @ ''_data'') typeMismatch w;
               w2 = emit [Lit ''addOutputPort<HandshakeDataOutPort<'', Str dataType,
                          Lit ''>>''] w1
           in (Success, emit [Lit '';\<newline>''] (emitHSPortCtor arg True w2))))"

section \<open>The simulator class\<close>

text \<open>\<^verbatim>\<open>for (auto &x : enumerate(xs)) if (body(x.value(), x.index()).failed()) return
  failure();\<close>\<close>

fun forEach ::
  "('a \<Rightarrow> nat \<Rightarrow> wrapper \<Rightarrow> status \<times> wrapper) \<Rightarrow> (nat \<times> 'a) list \<Rightarrow> wrapper \<Rightarrow> status \<times> wrapper" where
  "forEach body [] w = (Success, w)"
| "forEach body ((index, val) # rest) w =
     (case body val index w of
        (Success, w') \<Rightarrow> forEach body rest w'
      | (Failure, w') \<Rightarrow> (Failure, w')
      | (Halted h, w') \<Rightarrow> (Halted h, w'))"

text \<open>The opening of the class, up to the clock and reset wiring.\<close>

definition classHeader :: "string \<Rightarrow> tok list" where
  "classHeader fn =
     [Lit ''class '', Str fn, Lit ''Sim : public '', Str fn, Lit ''SimInterface {\<newline>'',
      Lit ''public:\<newline>'', Indent,
      Str fn, Lit ''Sim() : '', Str fn, Lit ''SimInterface() {\<newline>'', Indent,
      Lit ''// --- Generic Verilator interface\<newline>'',
      Lit ''interface.clock = &dut->clock;\<newline>'',
      Lit ''interface.reset = &dut->reset;\<newline>\<newline>'']"

text \<open>The literals that open the wiring of the two control ports.\<close>

definition inCtrlLit :: tok where
  "inCtrlLit = Lit ''inCtrl = std::make_unique<HandshakeInPort>(&dut->''"

definition outCtrlLit :: tok where
  "outCtrlLit = Lit ''outCtrl = std::make_unique<HandshakeOutPort>(&dut->''"

definition ctrlWiring :: "string \<Rightarrow> string \<Rightarrow> tok list" where
  "ctrlWiring inCtrlName outCtrlName =
     [Lit ''// --- Handshake interface\<newline>'',
      inCtrlLit, Str inCtrlName, Lit ''_ready, &dut->'', Str inCtrlName,
      Lit ''_valid);\<newline>'',
      outCtrlLit, Str outCtrlName, Lit ''_ready, &dut->'', Str outCtrlName,
      Lit ''_valid);\<newline>'',
      Lit ''\<newline>'']"

definition classFooter :: "tok list" where
  "classFooter = [Unindent, Lit ''};\<newline>'', Unindent, Lit ''};\<newline>\<newline>'']"

text \<open>The software interface: the loop over the arguments, the loop over the results,
  and the closing of the constructor and of the class.\<close>

definition emitPorts :: "utils \<Rightarrow> func_op \<Rightarrow> wrapper \<Rightarrow> status \<times> wrapper" where
  "emitPorts U funcType w =
     andThen (forEach (emitInputPort U) (enumerate 0 (getInputs funcType))
                (emit [Lit ''// - Input ports\<newline>''] w))
     (\<lambda>w. andThen (forEach (emitOutputPort U) (enumerate 0 (getResults funcType))
                (emit [Lit ''\<newline>// - Output ports\<newline>''] w))
     (\<lambda>w. (Success, emit classFooter w)))"

definition emitSimulator :: "utils \<Rightarrow> wrapper \<Rightarrow> status \<times> wrapper" where
  "emitSimulator U w =
     (let w1 = emit (classHeader (funcName w)) w in
      case getInputName w1 (inCtrlIdx w1) of
        Inl h \<Rightarrow> (Halted h, w1)
      | Inr inCtrlName \<Rightarrow>
      (case getResName w1 (length (getResults (funcOp w1))) of
        Inl h \<Rightarrow> (Halted h, w1)
      | Inr outCtrlName \<Rightarrow>
          (let w2 = emit [Lit ''// --- Software interface\<newline>'']
                      (emit (ctrlWiring inCtrlName outCtrlName) w1)
           in emitPorts U (funcOp w2) w2)))"

section \<open>The preamble\<close>

definition emitPreamble :: "utils \<Rightarrow> operation option \<Rightarrow> wrapper \<Rightarrow> status \<times> wrapper" where
  "emitPreamble U kernelOp w =
     (case kernelOp of
        None \<Rightarrow> (Halted NullDereference, w)
      | Some (FModuleLikeOp handshakeFirMod) \<Rightarrow>
          andThen (emitExt Ext (emitIOTypes U (funcOp w)) w)
          (\<lambda>w. andThen
             (emitSimulator U
                ((emit [Lit ''using TModel = V'', Str (funcName w), Lit '';\<newline>'',
                        Lit ''using '', Str (funcName w),
                        Lit (''SimInterface = HandshakeSimInterface<TInput, TOutput, '' @
                             ''TModel>;\<newline>\<newline>'')] w)
                 \<lparr>firrtlOp := Some handshakeFirMod\<rparr>))
          (\<lambda>w. (Success, emit [Lit ''using TSim = '', Str (funcName w), Lit ''Sim;\<newline>''] w)))
      | Some op \<Rightarrow>
          (Failure,
           w\<lparr>diags := diags w @
                [EmitOpError op (''Expected a FIRRTL module of the '' @
                                 ''handshake kernel that is to be wrapped'')]\<rparr>))"

section \<open>Initialisation\<close>

text \<open>\<^verbatim>\<open>init\<close>. Its first error is reported through \<^verbatim>\<open>refOp\<close>, which is null in
  the first equation; its last through \<^verbatim>\<open>firrtlLikeOp\<close>, the result of the
  \<^verbatim>\<open>dyn_cast\<close> that has just been found null.\<close>

fun init :: "operation option \<Rightarrow> operation option \<Rightarrow> wrapper \<Rightarrow> status \<times> wrapper" where
  "init None kernelOp w = (Halted NullDereference, w)"
| "init (Some refOp) None w =
     (Failure,
      w\<lparr>diags := diags w @
           [EmitError refOp (''Expected both a reference and a kernel operation for wrapping a '' @
                             ''handshake simulator.'')]\<rparr>)"
| "init (Some refOp) (Some kernelOp) w =
     (case refOp of
        HandshakeFuncOp hsRefOp \<Rightarrow>
          (case kernelOp of
             FModuleLikeOp firrtlLikeOp \<Rightarrow>
               (Success, w\<lparr>hsOp := Some hsRefOp, firrtlOp := Some firrtlLikeOp\<rparr>)
           | _ \<Rightarrow> (Halted NullDereference, w))
      | _ \<Rightarrow>
          (Failure,
           w\<lparr>diags := diags w @
                [EmitOpError refOp
                   ''expected reference operation to be a handshake.func operation.'']\<rparr>))"

section \<open>Inputs used to run the generator\<close>

text \<open>The port-count invariant: the module's ports are the arguments and one control
  input, then the results and one control output.\<close>

definition portCountInvariant :: "func_op \<Rightarrow> fmodule \<Rightarrow> bool" where
  "portCountInvariant f m =
     (length (getPorts m) = (length (getInputs f) + 1) + (length (getResults f) + 1))"

text \<open>A handshake channel of a given data width, and a control channel without data.\<close>

definition dataChannel :: "int \<Rightarrow> firrtl_type" where
  "dataChannel n =
     BundleType [(''ready'', GroundType 1), (''valid'', GroundType 1), (''data'', GroundType n)]"

definition ctrlChannel :: firrtl_type where
  "ctrlChannel = BundleType [(''ready'', GroundType 1), (''valid'', GroundType 1)]"

text \<open>An instance of the outside emitters: integer types of at most 64 bits are
  written as a C integer type of their width, everything else is rejected.\<close>

definition sampleUtils :: utils where
  "sampleUtils =
     \<lparr>emitVerilatorType =
        (\<lambda>loc t. case t of IntegerType n \<Rightarrow> (n \<le> 64, ''uint'' @ to_string n @ ''_t'')
                  | _ \<Rightarrow> (False, [])),
      emitVerilatorTypeFromWidth =
        (\<lambda>loc n. (n \<le> 64, ''uint'' @ to_string (unat n) @ ''_t'')),
      emitIOTypes = (\<lambda>f. (True, ''using TInput = std::tuple<>;\<newline>''))\<rparr>"

text \<open>A scalar kernel: \<^verbatim>\<open>(i32) -> i32\<close>.\<close>

definition scalarFunc :: func_op where
  "scalarFunc = \<lparr>getInputs = [IntegerType 32], getResults = [IntegerType 32]\<rparr>"

definition scalarModule :: fmodule where
  "scalarModule =
     \<lparr>getPorts = [(''in0'', dataChannel 32), (''inCtrl'', ctrlChannel),
                  (''out0'', dataChannel 32), (''outCtrl'', ctrlChannel)]\<rparr>"

definition scalarRef :: handshake_func where
  "scalarRef = \<lparr>getLoc = ''loc'', getArgUsers = [[OtherOperation ''handshake.return''], []]\<rparr>"

definition scalarWrapper :: wrapper where
  "scalarWrapper =
     \<lparr>funcName = ''f'', funcOp = scalarFunc, hsOp = Some scalarRef,
      firrtlOp = Some scalarModule, out = [], diags = []\<rparr>"

text \<open>A kernel over one memory of eight 32-bit words, read through one load port and
  written through one store port: \<^verbatim>\<open>(memref<8xi32>) -> ()\<close>.\<close>

definition memFunc :: func_op where
  "memFunc = \<lparr>getInputs = [MemRefType [8] (IntegerType 32)], getResults = []\<rparr>"

definition memBundle :: "(string \<times> firrtl_type) list" where
  "memBundle =
     [(''ldAddr0'', dataChannel 64), (''ldData0'', dataChannel 32), (''ldDone0'', ctrlChannel),
      (''stAddr0'', dataChannel 64), (''stData0'', dataChannel 32), (''stDone0'', ctrlChannel)]"

definition memModule :: fmodule where
  "memModule =
     \<lparr>getPorts = [(''in0'', BundleType memBundle), (''inCtrl'', ctrlChannel),
                  (''outCtrl'', ctrlChannel)]\<rparr>"

definition memRef :: "nat \<Rightarrow> nat \<Rightarrow> handshake_func" where
  "memRef l s = \<lparr>getLoc = ''loc'', getArgUsers = [[ExternalMemoryOp l s], []]\<rparr>"

definition memWrapper :: "handshake_func \<Rightarrow> wrapper" where
  "memWrapper hs =
     \<lparr>funcName = ''f'', funcOp = memFunc, hsOp = Some hs,
      firrtlOp = Some memModule, out = [], diags = []\<rparr>"

text \<open>A kernel without arguments and results: only the two control ports.\<close>

definition unitFunc :: func_op where
  "unitFunc = \<lparr>getInputs = [], getResults = []\<rparr>"

definition unitModule :: fmodule where
  "unitModule = \<lparr>getPorts = [(''inCtrl'', ctrlChannel), (''outCtrl'', ctrlChannel)]\<rparr>"

definition unitWrapper :: wrapper where
  "unitWrapper =
     \<lparr>funcName = ''f'', funcOp = unitFunc, hsOp = Some \<lparr>getLoc = ''loc'', getArgUsers = [[]]\<rparr>,
      firrtlOp = None, out = [], diags = []\<rparr>"

text \<open>A reference function in which two external-memory operations use the memory.\<close>

definition twoUsersRef :: handshake_func where
  "twoUsersRef =
     \<lparr>getLoc = ''loc'', getArgUsers = [[ExternalMemoryOp 1 0, ExternalMemoryOp 0 1], []]\<rparr>"

text \<open>A memory bundle whose two address signals have different widths.\<close>

definition twoWidths :: "(string \<times> firrtl_type) list" where
  "twoWidths = [(''ldAddr0'', dataChannel 4), (''ldData0'', dataChannel 32),
                (''stAddr0'', dataChannel 8)]"


section \<open>The text of the generated statements\<close>

text \<open>The argument list written by \<^verbatim>\<open>emitHSPortCtor\<close>: the port's name, then its
  ready, valid and (if it has one) data fields.\<close>

definition portCtor :: "string \<Rightarrow> bool \<Rightarrow> tok list" where
  "portCtor prefix hasData =
     [Lit ''(\"'', Str prefix, Lit ''\", '', Lit ''&dut->'', Str prefix, Lit ''_ready, '',
      Lit ''&dut->'', Str prefix, Lit ''_valid''] @
     (if hasData then [Lit '', &dut->'', Str prefix, Lit ''_data''] else []) @ [Lit '')'']"

text \<open>A load-port registration: data in, address out, done in without data.\<close>

definition loadPortReg :: "string \<Rightarrow> string \<Rightarrow> string \<Rightarrow> nat \<Rightarrow> tok list" where
  "loadPortReg name elemT addrT i =
     [Str name, Lit ''->addLoadPort(\<newline>'', Indent,
      Lit ''std::make_shared<HandshakeDataInPort<'', ExtRaw elemT, Lit ''>>''] @
     portCtor (name @ ''_ldData'' @ to_string i) True @
     [Lit '',\<newline>'', Lit ''std::make_shared<HandshakeDataOutPort<'', ExtRaw addrT, Lit ''>>''] @
     portCtor (name @ ''_ldAddr'' @ to_string i) True @
     [Lit '',\<newline>'', Lit ''std::make_shared<HandshakeInPort>''] @
     portCtor (name @ ''_ldDone'' @ to_string i) False @
     [Lit '');\<newline>'', Unindent]"

text \<open>A store-port registration.\<close>

definition storePortReg :: "string \<Rightarrow> string \<Rightarrow> string \<Rightarrow> nat \<Rightarrow> tok list" where
  "storePortReg name elemT addrT i =
     [Str name, Lit ''->addStorePort(\<newline>'', Indent,
      Lit ''std::make_shared<HandshakeDataOutPort<'', ExtRaw elemT, Lit ''>>''] @
     portCtor (name @ ''_stData'' @ to_string i) True @
     [Lit '',\<newline>'', Lit ''std::make_shared<HandshakeDataOutPort<'', ExtRaw addrT, Lit ''>>''] @
     portCtor (name @ ''_stAddr'' @ to_string i) True @
     [Lit '',\<newline>'', Lit ''std::make_shared<HandshakeInPort>''] @
     portCtor (name @ ''_stDone'' @ to_string i) False @
     [Lit '');\<newline>'', Unindent]"

text \<open>The declaration of the memory interface: element type, address type, size.\<close>

definition memDecl :: "string \<Rightarrow> string \<Rightarrow> string \<Rightarrow> int \<Rightarrow> tok list" where
  "memDecl name elemT addrT sz =
     [Lit ''auto '', Str name, Lit '' = addInputPort<HandshakeMemoryInterface<'', Ext elemT,
      Lit '', '', Ext addrT, Lit ''>>(/*size=*/'', Num sz, Lit '');\<newline>'']"

text \<open>The static assertion in front of a scalar port, and the registration after it.\<close>

definition typeAssert :: "string \<Rightarrow> string \<Rightarrow> tok list" where
  "typeAssert alias arg =
     [Lit ''static_assert(std::is_same<'', Str alias, Lit '', typeof('',
      Str (''dut->'' @ arg @ ''_data''), Lit '')>::value, \"'', Str typeMismatch,
      Lit ''\");\<newline>'']"

definition scalarPortReg :: "string \<Rightarrow> string \<Rightarrow> string \<Rightarrow> tok list" where
  "scalarPortReg opening alias arg =
     typeAssert alias arg @ [Lit opening, Str alias, Lit ''>>''] @ portCtor arg True @
     [Lit '';\<newline>'']"

text \<open>Address signals of a memory bundle, by name, and the width read from one.\<close>

definition isAddrSignal :: "string \<times> firrtl_type \<Rightarrow> bool" where
  "isAddrSignal sig = (startswith (fst sig) ''ldAddr'' \<or> startswith (fst sig) ''stAddr'')"

definition addrSignalWidth :: "firrtl_type \<Rightarrow> halt + 32 word" where
  "addrSignalWidth t = (case castBundleType t of Inl h \<Rightarrow> Inl h | Inr b \<Rightarrow> getBundleDataWidth b)"

definition noAddressSignal :: halt where
  "noAddressSignal = AssertionFailure ''Found no address signal in memory bundle!''"

text \<open>The address width as the specification words it: the data width of the first signal
  named as a load or store address, and a failure when there is none.\<close>

definition specAddrWidth :: "(string \<times> firrtl_type) list \<Rightarrow> halt + 32 word" where
  "specAddrWidth sigs =
     (case filter isAddrSignal sigs of
        [] \<Rightarrow> Inl noAddressSignal
      | sig # rest \<Rightarrow> addrSignalWidth (snd sig))"

definition wrongUserCount :: halt where
  "wrongUserCount = AssertionFailure ''expected exactly 1 user of a memref input argument''"

section \<open>Notions used in the properties\<close>

text \<open>The wrapper with an empty output stream and no diagnostics: what a step can read.\<close>

definition base :: "wrapper \<Rightarrow> wrapper" where
  "base w = w\<lparr>out := [], diags := []\<rparr>"

text \<open>A step writes: it only appends to the output stream, what it appends and what it
  returns depend on nothing but the wrapper without its stream, and every token it appends
  satisfies \<open>Q\<close>.\<close>

definition writes :: "(tok \<Rightarrow> bool) \<Rightarrow> (wrapper \<Rightarrow> status \<times> wrapper) \<Rightarrow> bool" where
  "writes Q f =
     (\<forall>w. f w = (fst (f (base w)), emit (out (snd (f (base w)))) w) \<and>
          list_all Q (out (snd (f (base w)))))"

text \<open>A token other than the two literals that open a control-port wiring.\<close>

definition notCtrl :: "tok \<Rightarrow> bool" where
  "notCtrl t = (t \<noteq> inCtrlLit \<and> t \<noteq> outCtrlLit)"

text \<open>What the step for one argument, and for one result, appends.\<close>

definition inputPortText :: "utils \<Rightarrow> wrapper \<Rightarrow> mlir_type \<Rightarrow> nat \<Rightarrow> tok list" where
  "inputPortText U w t i = out (snd (emitInputPort U t i (base w)))"

definition outputPortText :: "utils \<Rightarrow> wrapper \<Rightarrow> mlir_type \<Rightarrow> nat \<Rightarrow> tok list" where
  "outputPortText U w t i = out (snd (emitOutputPort U t i (base w)))"

text \<open>The tokens appended between two states of the wrapper.\<close>

definition emitted :: "wrapper \<Rightarrow> wrapper \<Rightarrow> tok list" where
  "emitted w w' = drop (length (out w)) (out w')"

text \<open>The aliases of the model and of the simulation interface, and the alias of the
  simulation driver.\<close>

definition aliases :: "string \<Rightarrow> tok list" where
  "aliases fn =
     [Lit ''using TModel = V'', Str fn, Lit '';\<newline>'', Lit ''using '', Str fn,
      Lit (''SimInterface = HandshakeSimInterface<TInput, TOutput, '' @
           ''TModel>;\<newline>\<newline>'')]"

definition driverAlias :: "string \<Rightarrow> tok list" where
  "driverAlias fn = [Lit ''using TSim = '', Str fn, Lit ''Sim;\<newline>'']"

text \<open>The wrapper on which \<^verbatim>\<open>emitPreamble\<close> calls \<^verbatim>\<open>emitSimulator\<close>: the I/O types and
  the two aliases are written and the module is set.\<close>

definition simStart :: "wrapper \<Rightarrow> fmodule \<Rightarrow> string \<Rightarrow> wrapper" where
  "simStart w m iot = (emit (Ext iot # aliases (funcName w)) w)\<lparr>firrtlOp := Some m\<rparr>"

text \<open>\<^verbatim>\<open>emitPreamble\<close> from the call of \<^verbatim>\<open>emitSimulator\<close> on.\<close>

definition emitTail :: "utils \<Rightarrow> wrapper \<Rightarrow> status \<times> wrapper" where
  "emitTail U w = andThen (emitSimulator U w) (\<lambda>w'. (Success, emit (driverAlias (funcName w')) w'))"

text \<open>Every token.\<close>

definition anyTok :: "tok \<Rightarrow> bool" where
  "anyTok t = True"

text \<open>The text of the software interface: all arguments in order, then all results in order.\<close>

definition portsText :: "utils \<Rightarrow> wrapper \<Rightarrow> tok list" where
  "portsText U w =
     [Lit ''// - Input ports\<newline>''] @
     concat (map (\<lambda>(i, t). inputPortText U w t i) (enumerate 0 (getInputs (funcOp w)))) @
     [Lit ''\<newline>// - Output ports\<newline>''] @
     concat (map (\<lambda>(i, t). outputPortText U w t i) (enumerate 0 (getResults (funcOp w)))) @
     classFooter"

text \<open>A kernel whose first argument is a two-dimensional memory and whose second is a
  scalar.\<close>

definition mixedFunc :: func_op where
  "mixedFunc = \<lparr>getInputs = [MemRefType [2, 2] (IntegerType 32), IntegerType 32],
                getResults = []\<rparr>"

definition mixedModule :: fmodule where
  "mixedModule =
     \<lparr>getPorts = [(''in0'', BundleType memBundle), (''in1'', dataChannel 32),
                  (''inCtrl'', ctrlChannel), (''outCtrl'', ctrlChannel)]\<rparr>"

definition mixedWrapper :: wrapper where
  "mixedWrapper =
     \<lparr>funcName = ''f'', funcOp = mixedFunc, hsOp = Some (memRef 1 1),
      firrtlOp = None, out = [], diags = []\<rparr>"

text \<open>What the sample \<^verbatim>\<open>emitIOTypes\<close> writes.\<close>

definition sampleTypes :: string where
  "sampleTypes = ''using TInput = std::tuple<>;\<newline>''"

text \<open>The scalar wrapper after earlier use: no module set, text already in the stream,
  a diagnostic already reported.\<close>

definition staleWrapper :: wrapper where
  "staleWrapper = scalarWrapper\<lparr>firrtlOp := None, out := [Lit ''#include <cstdint>\<newline>''],
                                diags := [EmitError (OtherOp ''earlier'') ''earlier'']\<rparr>"

section \<open>Basic facts\<close>

lemma andThen_simps [simp]:
  "andThen (Success, w) f = f w"
  "andThen (Failure, w) f = (Failure, w)"
  "andThen (Halted h, w) f = (Halted h, w)"
  by (simp_all add: andThen_def)

lemma emit_fields [simp]:
  "funcName (emit ts w) = funcName w"
  "funcOp (emit ts w) = funcOp w"
  "hsOp (emit ts w) = hsOp w"
  "firrtlOp (emit ts w) = firrtlOp w"
  "diags (emit ts w) = diags w"
  "out (emit ts w) = out w @ ts"
  by (simp_all add: emit_def)

lemma emit_emit [simp]: "emit ts (emit us w) = emit (us @ ts) w"
  by (simp add: emit_def)

lemma emit_Nil [simp]: "emit [] w = w"
  by (simp add: emit_def)

lemma emitHSPortCtor_emit: "emitHSPortCtor p d w = emit (portCtor p d) w"
  by (simp add: emitHSPortCtor_def portCtor_def Let_def)

lemma to_string_digit: "n < 10 \<Longrightarrow> to_string n = [digit n]"
  by (subst to_string.simps) simp

lemma to_string_32: "to_string 32 = ''32''"
  by (subst to_string.simps, subst to_string.simps) (simp add: digit_def)

lemma to_string_64: "to_string 64 = ''64''"
  by (subst to_string.simps, subst to_string.simps) (simp add: digit_def)

lemma startswith_simps [simp]:
  "startswith s [] = True"
  "startswith [] (c # p) = False"
  "startswith (d # s) (c # p) = (d = c \<and> startswith s p)"
  by (auto simp: startswith_def)

lemma to_string_0: "to_string 0 = ''0''"
  by (subst to_string.simps) (simp add: digit_def)

lemma resolveAddrWidth_memBundle: "resolveAddrWidth memBundle = Inr 64"
  by (simp add: resolveAddrWidth_def memBundle_def dataChannel_def ctrlChannel_def
      getBundleDataWidth_def)

lemma sampleUtils_simps:
  "emitVerilatorType sampleUtils loc (IntegerType 32) = (True, ''uint32_t'')"
  "emitVerilatorTypeFromWidth sampleUtils loc 64 = (True, ''uint64_t'')"
  by (simp_all add: sampleUtils_def to_string_32 to_string_64)

section \<open>Expansion of a memory argument: what is written\<close>

lemma emitLoadPort_ok:
  "emitVerilatorType U loc elt = (True, elemT) \<Longrightarrow>
   emitVerilatorTypeFromWidth U loc aw = (True, addrT) \<Longrightarrow>
   emitLoadPort U loc elt aw name i w = (Success, emit (loadPortReg name elemT addrT i) w)"
  by (simp add: emitLoadPort_def emitExt_def emitHSPortCtor_emit loadPortReg_def)

lemma emitStorePort_ok:
  "emitVerilatorType U loc elt = (True, elemT) \<Longrightarrow>
   emitVerilatorTypeFromWidth U loc aw = (True, addrT) \<Longrightarrow>
   emitStorePort U loc elt aw name i w = (Success, emit (storePortReg name elemT addrT i) w)"
  by (simp add: emitStorePort_def emitExt_def emitHSPortCtor_emit storePortReg_def)

lemma forUpTo_ok:
  "(\<And>j w. body j w = (Success, emit (g j) w)) \<Longrightarrow>
   forUpTo body i n w = (Success, emit (concat (map g [i..<n])) w)"
proof (induction body i n w rule: forUpTo.induct)
  case (1 body i n w)
  show ?case
  proof (cases "i < n")
    case True
    have "forUpTo body i n w = forUpTo body (Suc i) n (emit (g i) w)"
      using True "1.prems" by (subst forUpTo.simps) simp
    also have "\<dots> = (Success, emit (concat (map g [Suc i..<n])) (emit (g i) w))"
      by (rule "1.IH" [OF True]) (simp_all add: "1.prems")
    finally show ?thesis using True by (simp add: upt_conv_Cons)
  next
    case False
    then show ?thesis by (subst forUpTo.simps) simp
  qed
qed

lemma emitMemDecl_ok:
  "emitVerilatorType U loc elt = (True, elemT) \<Longrightarrow>
   emitVerilatorTypeFromWidth U loc aw = (True, addrT) \<Longrightarrow>
   emitMemDecl U loc (MemRefType [n] elt) aw name w = (Success, emit (memDecl name elemT addrT n) w)"
  by (simp add: emitMemDecl_def emitExt_def memDecl_def)

lemma emitExtMemPort_ok:
  assumes "firrtlOp w = Some m" "idx < length (getPorts m)"
    and "getPorts m ! idx = (name, BundleType sigs)"
    and "resolveAddrWidth sigs = Inr aw"
    and "hsOp w = Some hs"
    and "emitVerilatorType U (getLoc hs) elt = (True, elemT)"
    and "emitVerilatorTypeFromWidth U (getLoc hs) aw = (True, addrT)"
    and "idx < length (getArgUsers hs)"
    and "getArgUsers hs ! idx = [ExternalMemoryOp L S]"
  shows "emitExtMemPort U (MemRefType [n] elt) idx w =
           (Success,
            emit (memDecl name elemT addrT n @
                  concat (map (loadPortReg name elemT addrT) [0..<L]) @
                  concat (map (storePortReg name elemT addrT) [0..<S])) w)"
proof -
  have ext: "getExtMemOp hs idx = Inr (ExternalMemoryOp L S)"
    using assms(8,9) by (simp add: getExtMemOp_def)
  have ports: "emitMemPorts U hs (MemRefType [n] elt) aw name idx w' =
      (Success, emit (concat (map (loadPortReg name elemT addrT) [0..<L]) @
                  concat (map (storePortReg name elemT addrT) [0..<S])) w')" for w'
    using assms(6,7)
    by (simp add: emitMemPorts_def ext forUpTo_ok [where g = "loadPortReg name elemT addrT"]
        forUpTo_ok [where g = "storePortReg name elemT addrT"] emitLoadPort_ok emitStorePort_ok)
  show ?thesis
    using assms(1-7)
    by (simp add: emitExtMemPort_def getInputName_def getPortName_def getPortType_def
        getPort_def emitMemDecl_ok ports)
qed

lemma emitExtMemPort_decl_only:
  assumes "firrtlOp w = Some m" "idx < length (getPorts m)"
    and "getPorts m ! idx = (name, BundleType sigs)"
    and "resolveAddrWidth sigs = Inr aw"
    and "hsOp w = Some hs"
    and "emitVerilatorType U (getLoc hs) elt = (True, elemT)"
    and "emitVerilatorTypeFromWidth U (getLoc hs) aw = (True, addrT)"
  shows "emitExtMemPort U (MemRefType [n] elt) idx w =
           emitMemPorts U hs (MemRefType [n] elt) aw name idx (emit (memDecl name elemT addrT n) w)"
  using assms
  by (simp add: emitExtMemPort_def getInputName_def getPortName_def getPortType_def
      getPort_def emitMemDecl_ok)

section \<open>Memory ports\<close>

text \<open>
  C3. For a memory argument whose single user reports \<open>L\<close> loads and \<open>S\<close> stores,
  \<^verbatim>\<open>emitExtMemPort\<close> succeeds and writes the declaration, then the load-port
  registrations for \<open>0, \<dots>, L - 1\<close> in this order, then the store-port registrations for
  \<open>0, \<dots>, S - 1\<close>. Registration \<open>i\<close> names the signals \<^verbatim>\<open><name>_ldData<i>\<close> (a data
  input), \<^verbatim>\<open><name>_ldAddr<i>\<close> (a data output) and \<^verbatim>\<open><name>_ldDone<i>\<close> (an input
  without data), and likewise with \<^verbatim>\<open>st\<close> for the stores. The hypotheses say that the
  expansion gets as far as the loops: the port exists and is a bundle with an address
  signal, the reference function is set, and the two types can be written.
\<close>

theorem emitExtMemPort_load_store_ports:
  assumes "firrtlOp w = Some m" "idx < length (getPorts m)"
    and "getPorts m ! idx = (name, BundleType sigs)"
    and "resolveAddrWidth sigs = Inr aw"
    and "hsOp w = Some hs"
    and "emitVerilatorType U (getLoc hs) elt = (True, elemT)"
    and "emitVerilatorTypeFromWidth U (getLoc hs) aw = (True, addrT)"
    and "idx < length (getArgUsers hs)"
    and "getArgUsers hs ! idx = [ExternalMemoryOp L S]"
  shows "emitExtMemPort U (MemRefType [n] elt) idx w =
           (Success,
            emit (memDecl name elemT addrT n @
                  concat (map (loadPortReg name elemT addrT) [0..<L]) @
                  concat (map (storePortReg name elemT addrT) [0..<S])) w)"
  using assms by (rule emitExtMemPort_ok)

theorem emitExtMemPort_load_store_ports_witness:
  "emitExtMemPort sampleUtils (MemRefType [8] (IntegerType 32)) 0 (memWrapper (memRef 2 1)) =
     (Success,
      emit (memDecl ''in0'' ''uint32_t'' ''uint64_t'' 8 @
            concat (map (loadPortReg ''in0'' ''uint32_t'' ''uint64_t'') [0..<2]) @
            concat (map (storePortReg ''in0'' ''uint32_t'' ''uint64_t'') [0..<1]))
        (memWrapper (memRef 2 1)))"
  using emitExtMemPort_load_store_ports [of "memWrapper (memRef 2 1)" memModule 0 "''in0''"
      memBundle 64 "memRef 2 1" sampleUtils "IntegerType 32" "''uint32_t''" "''uint64_t''" 2 1 8]
  by (simp add: memWrapper_def memModule_def memRef_def resolveAddrWidth_memBundle
      sampleUtils_simps)



section \<open>The users of a memory argument\<close>

lemma andThen_Success:
  "fst (andThen r f) = Success \<Longrightarrow> \<exists>w1. r = (Success, w1) \<and> fst (f w1) = Success"
  by (cases r) (auto simp: andThen_def split: status.splits)

lemma getExtMemOp_Inr:
  "getExtMemOp hs idx = Inr e \<Longrightarrow>
   idx < length (getArgUsers hs) \<and> (\<exists>l s. e = ExternalMemoryOp l s \<and> getArgUsers hs ! idx = [e])"
  by (cases "getArgUsers hs ! idx"; cases "hd (getArgUsers hs ! idx)")
     (auto simp: getExtMemOp_def Let_def split: if_splits)

lemma emitMemPorts_Success:
  assumes "fst (emitMemPorts U hs memref aw name idx w) = Success"
  shows "\<exists>l s. getExtMemOp hs idx = Inr (ExternalMemoryOp l s)"
proof (cases "getExtMemOp hs idx")
  case (Inl h)
  then show ?thesis using assms by (simp add: emitMemPorts_def)
next
  case (Inr e)
  then show ?thesis using getExtMemOp_Inr [OF Inr] by auto
qed

lemma emitExtMemPort_Success:
  assumes "fst (emitExtMemPort U memref idx w) = Success" "hsOp w = Some hs"
  shows "\<exists>l s. getExtMemOp hs idx = Inr (ExternalMemoryOp l s)"
proof -
  from assms obtain aw name w1 where "fst (emitMemPorts U hs memref aw name idx w1) = Success"
    by (auto simp: emitExtMemPort_def split: if_splits sum.splits dest!: andThen_Success)
  then show ?thesis by (rule emitMemPorts_Success)
qed

text \<open>
  C5. With the reference function set and the argument among its block arguments:
  the expansion succeeds only if the argument has exactly one user and that user is an
  external-memory operation; it does not succeed when the number of users, or the number
  of external-memory users, is not one; and when everything before the user check goes
  through, a number of users other than one stops the process at the assertion on the
  user count, after the declaration has been written.
\<close>

theorem emitExtMemPort_one_user:
  assumes "hsOp w = Some hs" "idx < length (getArgUsers hs)"
  shows "(fst (emitExtMemPort U memref idx w) = Success \<longrightarrow>
            (\<exists>l s. getArgUsers hs ! idx = [ExternalMemoryOp l s]))
       \<and> (length (getArgUsers hs ! idx) \<noteq> 1 \<longrightarrow>
            fst (emitExtMemPort U memref idx w) \<noteq> Success)
       \<and> (length (filter (\<lambda>u. \<exists>l s. u = ExternalMemoryOp l s) (getArgUsers hs ! idx)) \<noteq> 1 \<longrightarrow>
            fst (emitExtMemPort U memref idx w) \<noteq> Success)
       \<and> (length (getArgUsers hs ! idx) \<noteq> 1 \<and> memref = MemRefType [n] elt \<and>
          firrtlOp w = Some m \<and> idx < length (getPorts m) \<and>
          getPorts m ! idx = (name, BundleType sigs) \<and> resolveAddrWidth sigs = Inr aw \<and>
          emitVerilatorType U (getLoc hs) elt = (True, elemT) \<and>
          emitVerilatorTypeFromWidth U (getLoc hs) aw = (True, addrT) \<longrightarrow>
            emitExtMemPort U memref idx w =
              (Halted (AssertionFailure ''expected exactly 1 user of a memref input argument''),
               emit (memDecl name elemT addrT n) w))"
proof -
  have succ: "\<exists>l s. getArgUsers hs ! idx = [ExternalMemoryOp l s]"
    if "fst (emitExtMemPort U memref idx w) = Success"
    using emitExtMemPort_Success [OF that assms(1)] by (auto dest: getExtMemOp_Inr)
  have halt: "emitMemPorts U hs memref aw name idx w' = (Halted wrongUserCount, w')"
    if "length (getArgUsers hs ! idx) \<noteq> 1" for w'
    using that assms(2) by (simp add: emitMemPorts_def getExtMemOp_def wrongUserCount_def)
  have stop: "emitExtMemPort U memref idx w =
      (Halted (AssertionFailure ''expected exactly 1 user of a memref input argument''),
       emit (memDecl name elemT addrT n) w)"
    if "length (getArgUsers hs ! idx) \<noteq> 1" "memref = MemRefType [n] elt"
      "firrtlOp w = Some m" "idx < length (getPorts m)"
      "getPorts m ! idx = (name, BundleType sigs)" "resolveAddrWidth sigs = Inr aw"
      "emitVerilatorType U (getLoc hs) elt = (True, elemT)"
      "emitVerilatorTypeFromWidth U (getLoc hs) aw = (True, addrT)"
    using emitExtMemPort_decl_only [OF that(3-6) assms(1) that(7,8), of n] halt [OF that(1)] that(2)
    by (simp add: wrongUserCount_def)
  show ?thesis using succ stop by auto
qed

theorem emitExtMemPort_one_user_witness:
  "emitExtMemPort sampleUtils (MemRefType [8] (IntegerType 32)) 0 (memWrapper twoUsersRef) =
     (Halted (AssertionFailure ''expected exactly 1 user of a memref input argument''),
      emit (memDecl ''in0'' ''uint32_t'' ''uint64_t'' 8) (memWrapper twoUsersRef))
   \<and> fst (emitExtMemPort sampleUtils (MemRefType [8] (IntegerType 32)) 0
            (memWrapper twoUsersRef)) \<noteq> Success"
  using emitExtMemPort_one_user [of "memWrapper twoUsersRef" twoUsersRef 0 sampleUtils
      "MemRefType [8] (IntegerType 32)" 8 "IntegerType 32" memModule "''in0''" memBundle 64
      "''uint32_t''" "''uint64_t''"]
  by (simp add: memWrapper_def memModule_def twoUsersRef_def resolveAddrWidth_memBundle
      sampleUtils_simps)

section \<open>The address width of a memory port\<close>

lemma addrWidthLoop_last:
  "\<forall>sig \<in> set sigs. isAddrSignal sig \<longrightarrow> (\<exists>n. addrSignalWidth (snd sig) = Inr n) \<Longrightarrow>
   addrWidthLoop sigs aw =
     (case filter isAddrSignal sigs of
        [] \<Rightarrow> Inr aw
      | sig # rest \<Rightarrow> addrSignalWidth (snd (last (sig # rest))))"
proof (induction sigs arbitrary: aw)
  case Nil
  then show ?case by simp
next
  case (Cons sig sigs)
  obtain name type where sig: "sig = (name, type)" by (cases sig)
  show ?case
  proof (cases "isAddrSignal sig")
    case False
    then show ?thesis using Cons by (simp add: sig isAddrSignal_def)
  next
    case True
    then obtain n where n: "addrSignalWidth type = Inr n" using Cons.prems sig by auto
    then obtain b where b: "castBundleType type = Inr b" "getBundleDataWidth b = Inr n"
      by (auto simp: addrSignalWidth_def split: sum.splits)
    have "addrWidthLoop (sig # sigs) aw = addrWidthLoop sigs n"
      using True b by (simp add: sig isAddrSignal_def)
    also have "\<dots> = (case filter isAddrSignal sigs of [] \<Rightarrow> Inr n
                      | s # rest \<Rightarrow> addrSignalWidth (snd (last (s # rest))))"
      using Cons.prems by (intro Cons.IH) simp
    finally show ?thesis using True n by (simp add: sig split: list.splits)
  qed
qed

text \<open>
  C2, as the claim words it, does not hold: with a 4-bit load address followed by an 8-bit
  store address the first address signal has width 4, and the generator resolves 8.
\<close>

theorem resolveAddrWidth_first_counterexample:
  "specAddrWidth twoWidths = Inr 4 \<and> resolveAddrWidth twoWidths = Inr 8 \<and>
   resolveAddrWidth twoWidths \<noteq> specAddrWidth twoWidths"
  by (simp add: specAddrWidth_def resolveAddrWidth_def twoWidths_def isAddrSignal_def
      addrSignalWidth_def dataChannel_def getBundleDataWidth_def)

text \<open>
  C2, amended. In a bundle whose address signals (names starting with \<^verbatim>\<open>ldAddr\<close> or
  \<^verbatim>\<open>stAddr\<close>) are all channels with a data signal, the generator resolves the data
  width of the last address signal, and stops at its assertion when there is no address
  signal or when that width is zero.
\<close>

theorem resolveAddrWidth_last:
  assumes "\<forall>sig \<in> set sigs. isAddrSignal sig \<longrightarrow> (\<exists>n. addrSignalWidth (snd sig) = Inr n)"
  shows "resolveAddrWidth sigs =
           (case filter isAddrSignal sigs of
              [] \<Rightarrow> Inl (AssertionFailure ''Found no address signal in memory bundle!'')
            | sig # rest \<Rightarrow>
                (case addrSignalWidth (snd (last (sig # rest))) of
                   Inl h \<Rightarrow> Inl h
                 | Inr n \<Rightarrow>
                     if 0 < n then Inr n
                     else Inl (AssertionFailure ''Found no address signal in memory bundle!'')))"
  by (simp add: resolveAddrWidth_def addrWidthLoop_last [OF assms] split: list.splits sum.splits)

theorem resolveAddrWidth_last_witness:
  "resolveAddrWidth twoWidths = Inr 8 \<and>
   resolveAddrWidth [(''data'', GroundType 8)] =
     Inl (AssertionFailure ''Found no address signal in memory bundle!'')"
  using resolveAddrWidth_last [of twoWidths] resolveAddrWidth_last [of "[(''data'', GroundType 8)]"]
  by (simp add: twoWidths_def isAddrSignal_def addrSignalWidth_def dataChannel_def
      getBundleDataWidth_def)

section \<open>Scalar ports and their type aliases\<close>

lemma emitInputPort_scalar:
  "\<not> isMemRef t \<Longrightarrow> firrtlOp w = Some m \<Longrightarrow> idx < length (getPorts m) \<Longrightarrow>
   emitInputPort U t idx w =
     (Success, emit (scalarPortReg ''addInputPort<HandshakeDataInPort<''
                       (''TArg'' @ to_string idx) (fst (getPorts m ! idx))) w)"
  by (simp add: emitInputPort_def getInputName_def getPortName_def getPort_def Let_def
      emitHSTypeAssert_def emitHSPortCtor_emit scalarPortReg_def typeAssert_def)

lemma emitOutputPort_scalar:
  "firrtlOp w = Some m \<Longrightarrow> u32 (idx + length (getInputs (funcOp w)) + 1) < length (getPorts m) \<Longrightarrow>
   emitOutputPort U t idx w =
     (Success, emit (scalarPortReg ''addOutputPort<HandshakeDataOutPort<''
                       (''TRes'' @ to_string idx)
                       (fst (getPorts m ! u32 (idx + length (getInputs (funcOp w)) + 1)))) w)"
  by (simp add: emitOutputPort_def getResName_def inCtrlIdx_def getPortName_def getPort_def Let_def
      emitHSTypeAssert_def emitHSPortCtor_emit scalarPortReg_def typeAssert_def)

text \<open>
  C7. With the module set: for an argument that is not a memory, at a position inside the
  port list, \<^verbatim>\<open>emitInputPort\<close> succeeds and writes a static assertion that the alias
  \<^verbatim>\<open>TArg<i>\<close> is the type of the model's \<^verbatim>\<open><name>_data\<close> field, and after it the
  registration of an input port of type \<^verbatim>\<open>TArg<i>\<close> on the port's signals; and
  \<^verbatim>\<open>emitOutputPort\<close> does the same for result \<open>i\<close> with \<^verbatim>\<open>TRes<i>\<close>, on the port that
  follows the arguments and the control input.
\<close>

theorem scalar_port_alias:
  assumes "firrtlOp w = Some m"
  shows "(\<not> isMemRef t \<and> idx < length (getPorts m) \<longrightarrow>
          emitInputPort U t idx w =
            (Success,
             emit (typeAssert (''TArg'' @ to_string idx) (fst (getPorts m ! idx)) @
                   [Lit ''addInputPort<HandshakeDataInPort<'', Str (''TArg'' @ to_string idx),
                    Lit ''>>''] @
                   portCtor (fst (getPorts m ! idx)) True @ [Lit '';\<newline>'']) w))
       \<and> (u32 (idx + length (getInputs (funcOp w)) + 1) < length (getPorts m) \<longrightarrow>
          emitOutputPort U t idx w =
            (Success,
             emit (typeAssert (''TRes'' @ to_string idx)
                     (fst (getPorts m ! u32 (idx + length (getInputs (funcOp w)) + 1))) @
                   [Lit ''addOutputPort<HandshakeDataOutPort<'', Str (''TRes'' @ to_string idx),
                    Lit ''>>''] @
                   portCtor (fst (getPorts m ! u32 (idx + length (getInputs (funcOp w)) + 1))) True @
                   [Lit '';\<newline>'']) w))"
  using emitInputPort_scalar [OF _ assms, of t idx U] emitOutputPort_scalar [OF assms, of idx U t]
  by (simp add: scalarPortReg_def)

theorem scalar_port_alias_witness:
  "emitInputPort sampleUtils (IntegerType 32) 0 scalarWrapper =
     (Success,
      emit (typeAssert ''TArg0'' ''in0'' @
            [Lit ''addInputPort<HandshakeDataInPort<'', Str ''TArg0'', Lit ''>>''] @
            portCtor ''in0'' True @ [Lit '';\<newline>'']) scalarWrapper)
   \<and> emitOutputPort sampleUtils (IntegerType 32) 0 scalarWrapper =
     (Success,
      emit (typeAssert ''TRes0'' ''out0'' @
            [Lit ''addOutputPort<HandshakeDataOutPort<'', Str ''TRes0'', Lit ''>>''] @
            portCtor ''out0'' True @ [Lit '';\<newline>'']) scalarWrapper)"
  using scalar_port_alias [of scalarWrapper scalarModule "IntegerType 32" 0 sampleUtils]
  by (simp add: scalarWrapper_def scalarModule_def scalarFunc_def u32_def to_string_0)

section \<open>Memory shapes\<close>

text \<open>
  C9. A memory argument whose shape does not have exactly one dimension is not expanded:
  \<^verbatim>\<open>emitExtMemPort\<close> stops at its first assertion, whatever the other inputs are, and
  nothing has been written.
\<close>

theorem emitExtMemPort_rank_assert:
  "length shape \<noteq> 1 \<Longrightarrow>
     emitExtMemPort U (MemRefType shape elt) idx w =
       (Halted (AssertionFailure ''Only support unidimensional memories''), w)"
  by (simp add: emitExtMemPort_def)

theorem emitExtMemPort_rank_assert_witness:
  "length [2, 2 :: int] \<noteq> 1 \<and>
   emitExtMemPort sampleUtils (MemRefType [2, 2] (IntegerType 32)) 0 (memWrapper (memRef 1 1)) =
     (Halted (AssertionFailure ''Only support unidimensional memories''), memWrapper (memRef 1 1))"
  using emitExtMemPort_rank_assert [of "[2, 2]" sampleUtils "IntegerType 32" 0
      "memWrapper (memRef 1 1)"]
  by simp

section \<open>Initialisation\<close>

text \<open>
  C10. \<^verbatim>\<open>init\<close> on a handshake function and a kernel operation that is not a FIRRTL
  module: the error is reported through the null result of the cast instead of through the
  kernel operation, so no diagnostic is recorded and the call does not return failure.
  The same happens when the reference operation is null. \<^verbatim>\<open>emitPreamble\<close> makes the same
  test on the kernel operation and reports through the operation itself.
\<close>

theorem init_kernel_not_module:
  "init (Some (HandshakeFuncOp scalarRef)) (Some (OtherOp ''func.func'')) scalarWrapper =
     (Halted NullDereference, scalarWrapper)
   \<and> init None (Some (FModuleLikeOp scalarModule)) scalarWrapper =
     (Halted NullDereference, scalarWrapper)
   \<and> emitPreamble sampleUtils (Some (OtherOp ''func.func'')) scalarWrapper =
     (Failure,
      scalarWrapper\<lparr>diags :=
        [EmitOpError (OtherOp ''func.func'')
           ''Expected a FIRRTL module of the handshake kernel that is to be wrapped'']\<rparr>)"
  by (simp add: emitPreamble_def scalarWrapper_def)

section \<open>Steps only append to the stream\<close>

lemma base_fields [simp]:
  "funcName (base w) = funcName w"
  "funcOp (base w) = funcOp w"
  "hsOp (base w) = hsOp w"
  "firrtlOp (base w) = firrtlOp w"
  "diags (base w) = []"
  "out (base w) = []"
  by (simp_all add: base_def)

lemma base_emit [simp]: "base (emit ts w) = base w"
  by (simp add: base_def emit_def)

lemma base_base [simp]: "base (base w) = base w"
  by (simp add: base_def)

lemma lookups_base [simp]:
  "getPort (base w) idx = getPort w idx"
  "getPortName (base w) idx = getPortName w idx"
  "getPortType (base w) idx = getPortType w idx"
  "getInputName (base w) idx = getInputName w idx"
  "inCtrlIdx (base w) = inCtrlIdx w"
  "getResName (base w) idx = getResName w idx"
  by (simp_all add: getPort_def getPortName_def getPortType_def getInputName_def inCtrlIdx_def
      getResName_def)

lemma lookups_emit [simp]:
  "getPort (emit ts w) idx = getPort w idx"
  "getPortName (emit ts w) idx = getPortName w idx"
  "getPortType (emit ts w) idx = getPortType w idx"
  "getInputName (emit ts w) idx = getInputName w idx"
  "inCtrlIdx (emit ts w) = inCtrlIdx w"
  "getResName (emit ts w) idx = getResName w idx"
  by (simp_all add: getPort_def getPortName_def getPortType_def getInputName_def inCtrlIdx_def
      getResName_def)

lemma writesI:
  assumes "\<And>w. f w = (fst (f (base w)), emit (out (snd (f (base w)))) w)"
    and "\<And>w. list_all Q (out (snd (f (base w))))"
  shows "writes Q f"
  unfolding writes_def using assms by blast

lemma writes_run:
  assumes "writes Q f"
  obtains st ts where "f w = (st, emit ts w)" "f (base w) = (st, emit ts (base w))" "list_all Q ts"
proof -
  let ?st = "fst (f (base w))" and ?ts = "out (snd (f (base w)))"
  have 1: "f w = (?st, emit ?ts w)" and 3: "list_all Q ?ts"
    using assms unfolding writes_def by blast+
  have "f (base w) = (fst (f (base (base w))), emit (out (snd (f (base (base w))))) (base w))"
    using assms unfolding writes_def by blast
  then have 2: "f (base w) = (?st, emit ?ts (base w))" by simp
  from 1 2 3 show thesis by (rule that)
qed

lemma writes_of_runs:
  assumes "\<And>w. \<exists>st ts. f w = (st, emit ts w) \<and> f (base w) = (st, emit ts (base w)) \<and> list_all Q ts"
  shows "writes Q f"
proof (rule writesI)
  fix w
  from assms [of w] obtain st ts where
    "f w = (st, emit ts w)" "f (base w) = (st, emit ts (base w))" "list_all Q ts" by blast
  then show "f w = (fst (f (base w)), emit (out (snd (f (base w)))) w)"
    and "list_all Q (out (snd (f (base w))))" by simp_all
qed

lemma writes_return: "list_all Q ts \<Longrightarrow> writes Q (\<lambda>w. (st, emit ts w))"
  by (rule writes_of_runs) auto

lemma writes_stop: "writes Q (\<lambda>w. (st, w))"
  using writes_return [of Q "[]" st] by simp

lemma writes_emitExt: "Q (k (snd r)) \<Longrightarrow> writes Q (emitExt k r)"
  unfolding emitExt_def by (rule writes_return) simp

lemma writes_after_emit:
  assumes "writes Q f" "list_all Q us"
  shows "writes Q (\<lambda>w. f (emit us w))"
proof (rule writes_of_runs)
  fix w
  from assms(1) obtain st ts where
    r: "f (emit us w) = (st, emit ts (emit us w))"
       "f (base (emit us w)) = (st, emit ts (base (emit us w)))" "list_all Q ts"
    by (rule writes_run)
  from assms(1) obtain st' ts' where
    r': "f (emit us (base w)) = (st', emit ts' (emit us (base w)))"
       "f (base (emit us (base w))) = (st', emit ts' (base (emit us (base w))))"
    by (rule writes_run)
  from r(2) r'(2) have "(st', emit ts' (base w)) = (st, emit ts (base w))" by simp
  then have "st' = st" "out (emit ts' (base w)) = out (emit ts (base w))" by simp_all
  then have "st' = st" "ts' = ts" by simp_all
  with r r' assms(2) show "\<exists>st ts. f (emit us w) = (st, emit ts w) \<and>
      f (emit us (base w)) = (st, emit ts (base w)) \<and> list_all Q ts"
    by (intro exI [of _ st] exI [of _ "us @ ts"]) simp
qed

lemma writes_andThen:
  assumes "writes Q g" "writes Q f"
  shows "writes Q (\<lambda>w. andThen (g w) f)"
proof (rule writes_of_runs)
  fix w
  from assms(1) obtain st ts where
    g: "g w = (st, emit ts w)" "g (base w) = (st, emit ts (base w))" "list_all Q ts"
    by (rule writes_run)
  show "\<exists>st ts. andThen (g w) f = (st, emit ts w) \<and>
      andThen (g (base w)) f = (st, emit ts (base w)) \<and> list_all Q ts"
  proof (cases st)
    case Success
    from writes_after_emit [OF assms(2) g(3)] obtain st' ts' where
      "f (emit ts w) = (st', emit ts' w)" "f (emit ts (base w)) = (st', emit ts' (base w))"
      "list_all Q ts'"
      by (rule writes_run)
    then show ?thesis using g Success by auto
  next
    case Failure
    then show ?thesis using g by auto
  next
    case (Halted h)
    then show ?thesis using g by auto
  qed
qed

lemma forUpTo_step:
  "forUpTo body i n = (\<lambda>w. if i < n then andThen (body i w) (forUpTo body (Suc i) n) else (Success, w))"
  by (rule ext, subst forUpTo.simps) (simp add: andThen_def split: prod.splits status.splits)

lemma writes_forUpTo:
  assumes "\<And>j. writes Q (body j)"
  shows "writes Q (forUpTo body i n)"
proof (induction "n - i" arbitrary: i)
  case 0
  then have "forUpTo body i n = (\<lambda>w. (Success, w))" by (subst forUpTo_step) simp
  then show ?case by (simp add: writes_stop)
next
  case (Suc d)
  then have "i < n" by arith
  then have "forUpTo body i n = (\<lambda>w. andThen (body i w) (forUpTo body (Suc i) n))"
    by (subst forUpTo_step) simp
  moreover have "writes Q (forUpTo body (Suc i) n)" using Suc by simp
  ultimately show ?case using writes_andThen [OF assms] by simp
qed

lemma forEach_step:
  "forEach body ((i, v) # rest) = (\<lambda>w. andThen (body v i w) (forEach body rest))"
  by (rule ext) (simp add: andThen_def split: prod.splits status.splits)

lemma writes_forEach:
  assumes "\<And>v j. writes Q (body v j)"
  shows "writes Q (forEach body xs)"
proof (induction xs)
  case Nil
  have "forEach body [] = (\<lambda>w. (Success, w))" by (rule ext) simp
  then show ?case by (simp add: writes_stop)
next
  case (Cons x xs)
  obtain i v where x: "x = (i, v)" by (cases x)
  show ?case unfolding x forEach_step using assms Cons by (rule writes_andThen)
qed

lemma writes_local:
  assumes "\<And>w. \<exists>g. writes Q g \<and> f w = g w \<and> f (base w) = g (base w)"
  shows "writes Q f"
proof (rule writes_of_runs)
  fix w
  from assms [of w] obtain g where g: "writes Q g" "f w = g w" "f (base w) = g (base w)" by blast
  from g(1) obtain st ts where "g w = (st, emit ts w)" "g (base w) = (st, emit ts (base w))"
    "list_all Q ts" by (rule writes_run)
  with g show "\<exists>st ts. f w = (st, emit ts w) \<and> f (base w) = (st, emit ts (base w)) \<and> list_all Q ts"
    by auto
qed

lemma notCtrl_simps [simp]:
  "notCtrl (Str s)" "notCtrl (Num n)" "notCtrl (Ext s)" "notCtrl (ExtRaw s)"
  "notCtrl Indent" "notCtrl Unindent"
  "notCtrl (Lit s) = (s \<noteq> ''inCtrl = std::make_unique<HandshakeInPort>(&dut->'' \<and>
                      s \<noteq> ''outCtrl = std::make_unique<HandshakeOutPort>(&dut->'')"
  by (simp_all add: notCtrl_def inCtrlLit_def outCtrlLit_def)

lemma notCtrl_portCtor: "list_all notCtrl (portCtor p d)"
  by (simp add: portCtor_def)

lemma writes_emitLoadPort: "writes notCtrl (emitLoadPort U loc elt aw name i)"
  by (rule writesI) (simp_all add: emitLoadPort_def emitExt_def emitHSPortCtor_emit notCtrl_portCtor)

lemma writes_emitStorePort: "writes notCtrl (emitStorePort U loc elt aw name i)"
  by (rule writesI) (simp_all add: emitStorePort_def emitExt_def emitHSPortCtor_emit notCtrl_portCtor)

lemma writes_emitMemDecl: "writes notCtrl (emitMemDecl U loc memref aw name)"
  by (rule writesI) (simp_all add: emitMemDecl_def emitExt_def)

lemma writes_emitMemPorts: "writes notCtrl (emitMemPorts U hs memref aw name idx)"
proof (cases "getExtMemOp hs idx")
  case (Inl h)
  then have "emitMemPorts U hs memref aw name idx = (\<lambda>w. (Halted h, w))"
    by (intro ext) (simp add: emitMemPorts_def)
  then show ?thesis by (simp add: writes_stop)
next
  case (Inr e)
  then have "emitMemPorts U hs memref aw name idx =
    (\<lambda>w. andThen (forUpTo (emitLoadPort U (getLoc hs) (getElementType memref) aw name)
                     0 (getLdCount e) w)
            (forUpTo (emitStorePort U (getLoc hs) (getElementType memref) aw name)
                     0 (getStCount e)))"
    by (intro ext) (simp add: emitMemPorts_def)
  then show ?thesis
    by (simp add: writes_andThen writes_forUpTo writes_emitLoadPort writes_emitStorePort)
qed

lemma writes_emitExtMemPort: "writes notCtrl (emitExtMemPort U memref idx)"
proof (rule writes_local)
  fix w
  let ?f = "emitExtMemPort U memref idx"
  let ?goal = "\<exists>g. writes notCtrl g \<and> ?f w = g w \<and> ?f (base w) = g (base w)"
  have stop: ?goal if "?f w = (st, w)" "?f (base w) = (st, base w)" for st
    using that by (intro exI [of _ "\<lambda>w. (st, w)"]) (simp add: writes_stop)
  show ?goal
  proof (cases "length (getShape memref) \<noteq> 1")
    case True
    then show ?thesis by (intro stop) (simp_all add: emitExtMemPort_def)
  next
    case rank: False
    show ?thesis
    proof (cases "getInputName w idx")
      case (Inl h)
      then show ?thesis using rank by (intro stop) (simp_all add: emitExtMemPort_def)
    next
      case name: (Inr name)
      show ?thesis
      proof (cases "getPortType w idx")
        case (Inl h)
        then show ?thesis using rank name by (intro stop) (simp_all add: emitExtMemPort_def)
      next
        case pt: (Inr portType)
        show ?thesis
        proof (cases "castBundleType portType")
          case (Inl h)
          then show ?thesis using rank name pt by (intro stop) (simp_all add: emitExtMemPort_def)
        next
          case b: (Inr bundleType)
          show ?thesis
          proof (cases "resolveAddrWidth bundleType")
            case (Inl h)
            then show ?thesis using rank name pt b
              by (intro stop) (simp_all add: emitExtMemPort_def)
          next
            case aw: (Inr addrWidth)
            show ?thesis
            proof (cases "hsOp w")
              case None
              then show ?thesis using rank name pt b aw
                by (intro exI [of _ "\<lambda>w. (Halted NullDereference,
                      emit [Lit ''auto '', Str name,
                            Lit '' = addInputPort<HandshakeMemoryInterface<''] w)"])
                   (simp add: emitExtMemPort_def writes_return)
            next
              case (Some hs)
              then show ?thesis using rank name pt b aw
                by (intro exI [of _ "\<lambda>w. andThen (emitMemDecl U (getLoc hs) memref addrWidth name w)
                         (emitMemPorts U hs memref addrWidth name idx)"])
                   (simp add: emitExtMemPort_def writes_andThen writes_emitMemDecl
                      writes_emitMemPorts)
            qed
          qed
        qed
      qed
    qed
  qed
qed

lemma notCtrl_scalarPortReg:
  "opening \<noteq> ''inCtrl = std::make_unique<HandshakeInPort>(&dut->'' \<Longrightarrow>
   opening \<noteq> ''outCtrl = std::make_unique<HandshakeOutPort>(&dut->'' \<Longrightarrow>
   list_all notCtrl (scalarPortReg opening alias arg)"
  by (simp add: scalarPortReg_def typeAssert_def notCtrl_portCtor)

lemma emitInputPort_scalar':
  "\<not> isMemRef t \<Longrightarrow> getInputName w idx = Inr arg \<Longrightarrow>
   emitInputPort U t idx w =
     (Success, emit (scalarPortReg ''addInputPort<HandshakeDataInPort<''
                       (''TArg'' @ to_string idx) arg) w)"
  by (simp add: emitInputPort_def Let_def
      emitHSTypeAssert_def emitHSPortCtor_emit scalarPortReg_def typeAssert_def)

lemma emitOutputPort_scalar':
  "getResName w idx = Inr arg \<Longrightarrow>
   emitOutputPort U t idx w =
     (Success, emit (scalarPortReg ''addOutputPort<HandshakeDataOutPort<''
                       (''TRes'' @ to_string idx) arg) w)"
  by (simp add: emitOutputPort_def Let_def
      emitHSTypeAssert_def emitHSPortCtor_emit scalarPortReg_def typeAssert_def)

lemma writes_emitInputPort: "writes notCtrl (emitInputPort U t idx)"
proof (cases "isMemRef t")
  case True
  then have "emitInputPort U t idx = emitExtMemPort U t idx"
    by (intro ext) (simp add: emitInputPort_def)
  then show ?thesis by (simp add: writes_emitExtMemPort)
next
  case False
  show ?thesis
  proof (rule writes_of_runs)
    fix w
    show "\<exists>st ts. emitInputPort U t idx w = (st, emit ts w) \<and>
        emitInputPort U t idx (base w) = (st, emit ts (base w)) \<and> list_all notCtrl ts"
    proof (cases "getInputName w idx")
      case (Inl h)
      then show ?thesis using False
        by (intro exI [of _ "Halted h"] exI [of _ "[]"]) (simp add: emitInputPort_def)
    next
      case (Inr arg)
      then show ?thesis using False
        by (intro exI [of _ Success] exI [of _ "scalarPortReg ''addInputPort<HandshakeDataInPort<''
                       (''TArg'' @ to_string idx) arg"])
           (simp add: emitInputPort_scalar' notCtrl_scalarPortReg)
    qed
  qed
qed

lemma writes_emitOutputPort: "writes notCtrl (emitOutputPort U t idx)"
proof (rule writes_of_runs)
  fix w
  show "\<exists>st ts. emitOutputPort U t idx w = (st, emit ts w) \<and>
      emitOutputPort U t idx (base w) = (st, emit ts (base w)) \<and> list_all notCtrl ts"
  proof (cases "getResName w idx")
    case (Inl h)
    then show ?thesis
      by (intro exI [of _ "Halted h"] exI [of _ "[]"]) (simp add: emitOutputPort_def)
  next
    case (Inr arg)
    then show ?thesis
      by (intro exI [of _ Success] exI [of _ "scalarPortReg ''addOutputPort<HandshakeDataOutPort<''
                     (''TRes'' @ to_string idx) arg"])
         (simp add: emitOutputPort_scalar' notCtrl_scalarPortReg)
  qed
qed

lemma emitted_emit [simp]: "emitted w (emit ts w) = ts"
  by (simp add: emitted_def)

lemma forEach_Success:
  assumes "\<And>v j. writes Q (body v j)"
  shows "forEach body xs w = (Success, w') \<Longrightarrow>
         w' = emit (concat (map (\<lambda>(i, v). out (snd (body v i (base w)))) xs)) w"
proof (induction xs arbitrary: w)
  case Nil
  then show ?case by simp
next
  case (Cons x xs)
  obtain i v where x: "x = (i, v)" by (cases x)
  from assms obtain st ts where
    r: "body v i w = (st, emit ts w)" "body v i (base w) = (st, emit ts (base w))"
    by (rule writes_run)
  from Cons.prems r have st: "st = Success" by (cases st) (simp_all add: x)
  with Cons.prems r have "forEach body xs (emit ts w) = (Success, w')" by (simp add: x)
  from Cons.IH [OF this] show ?case using r by (simp add: x)
qed

lemma forEach_all_ok:
  assumes "\<And>v j. writes Q (body v j)"
    and "\<And>i v w'. (i, v) \<in> set xs \<Longrightarrow> base w' = base w \<Longrightarrow> fst (body v i w') = Success"
  shows "fst (forEach body xs w) = Success"
  using assms(2)
proof (induction xs arbitrary: w)
  case Nil
  then show ?case by simp
next
  case (Cons x xs)
  obtain i v where x: "x = (i, v)" by (cases x)
  from assms(1) obtain st ts where r: "body v i w = (st, emit ts w)"
    by (rule writes_run)
  have "fst (body v i w) = Success" by (rule Cons.prems) (simp_all add: x)
  with r have st: "st = Success" by simp
  have "fst (forEach body xs (emit ts w)) = Success"
    by (rule Cons.IH, rule Cons.prems) simp_all
  then show ?case using r st by (simp add: x)
qed

lemma forEach_first_failure:
  "forEach body pre w = (Success, w1) \<Longrightarrow> body v i w1 = (st, w2) \<Longrightarrow> st \<noteq> Success \<Longrightarrow>
   forEach body (pre @ (i, v) # post) w = (st, w2)"
proof (induction pre arbitrary: w)
  case Nil
  then show ?case by (cases st) simp_all
next
  case (Cons x pre)
  obtain j u where x: "x = (j, u)" by (cases x)
  obtain s w' where b: "body u j w = (s, w')" by (cases "body u j w")
  with Cons.prems(1) have s: "s = Success" by (cases s) (simp_all add: x)
  with Cons.prems(1) b have "forEach body pre w' = (Success, w1)" by (simp add: x)
  from Cons.IH [OF this Cons.prems(2,3)] show ?case using b s by (simp add: x)
qed

lemma writes_emitPorts: "writes notCtrl (emitPorts U funcType)"
proof -
  have 1: "writes notCtrl (\<lambda>w. forEach (emitInputPort U) (enumerate 0 (getInputs funcType))
                (emit [Lit ''// - Input ports\<newline>''] w))"
    by (rule writes_after_emit [OF writes_forEach]) (simp_all add: writes_emitInputPort)
  have 2: "writes notCtrl (\<lambda>w. forEach (emitOutputPort U) (enumerate 0 (getResults funcType))
                (emit [Lit ''\<newline>// - Output ports\<newline>''] w))"
    by (rule writes_after_emit [OF writes_forEach]) (simp_all add: writes_emitOutputPort)
  have 3: "writes notCtrl (\<lambda>w. (Success, emit classFooter w))"
    by (rule writes_return) (simp add: classFooter_def)
  have "emitPorts U funcType = (\<lambda>w. andThen (forEach (emitInputPort U) (enumerate 0 (getInputs funcType))
                (emit [Lit ''// - Input ports\<newline>''] w))
     (\<lambda>w. andThen (forEach (emitOutputPort U) (enumerate 0 (getResults funcType))
                (emit [Lit ''\<newline>// - Output ports\<newline>''] w))
     (\<lambda>w. (Success, emit classFooter w))))"
    by (intro ext) (simp add: emitPorts_def)
  then show ?thesis using writes_andThen [OF 1 writes_andThen [OF 2 3]] by simp
qed

lemma emitSimulator_emitPorts:
  "getInputName w (inCtrlIdx w) = Inr a \<Longrightarrow>
   getResName w (length (getResults (funcOp w))) = Inr b \<Longrightarrow>
   emitSimulator U w =
     emitPorts U (funcOp w)
       (emit (classHeader (funcName w) @ ctrlWiring a b @
              [Lit ''// --- Software interface\<newline>'']) w)"
  by (simp add: emitSimulator_def emitPorts_def Let_def)

section \<open>The control ports\<close>

lemma emit_firrtlOp_update: "emit ts (w\<lparr>firrtlOp := x\<rparr>) = (emit ts w)\<lparr>firrtlOp := x\<rparr>"
  by (simp add: emit_def)

lemma simStart_fields [simp]:
  "funcName (simStart w m iot) = funcName w"
  "funcOp (simStart w m iot) = funcOp w"
  "hsOp (simStart w m iot) = hsOp w"
  "firrtlOp (simStart w m iot) = Some m"
  "diags (simStart w m iot) = diags w"
  "out (simStart w m iot) = out w @ Ext iot # aliases (funcName w)"
  by (simp_all add: simStart_def)

lemma emitPreamble_types_fail:
  "emitIOTypes U (funcOp w) = (False, iot) \<Longrightarrow>
   emitPreamble U (Some (FModuleLikeOp m)) w = (Failure, emit [Ext iot] w)"
  by (simp add: emitPreamble_def emitExt_def)

lemma emitPreamble_types_ok:
  "emitIOTypes U (funcOp w) = (True, iot) \<Longrightarrow>
   emitPreamble U (Some (FModuleLikeOp m)) w =
     andThen (emitSimulator U (simStart w m iot))
       (\<lambda>w'. (Success, emit (driverAlias (funcName w')) w'))"
  by (simp add: emitPreamble_def emitExt_def simStart_def aliases_def driverAlias_def)

lemma names_resolve:
  assumes "firrtlOp w = Some m" "portCountInvariant (funcOp w) m" "length (getPorts m) < 2 ^ 32"
  shows "getInputName w (inCtrlIdx w) = Inr (fst (getPorts m ! length (getInputs (funcOp w))))"
    and "getResName w (length (getResults (funcOp w))) =
           Inr (fst (getPorts m ! (length (getResults (funcOp w)) + length (getInputs (funcOp w)) + 1)))"
proof -
  let ?a = "length (getInputs (funcOp w))" and ?r = "length (getResults (funcOp w))"
  have len: "length (getPorts m) = ?a + ?r + 2"
    using assms(2) by (simp add: portCountInvariant_def)
  show "getInputName w (inCtrlIdx w) = Inr (fst (getPorts m ! ?a))"
    using assms(1) len by (simp add: getInputName_def getPortName_def getPort_def inCtrlIdx_def)
  have "u32 (?r + ?a + 1) = ?r + ?a + 1"
    using assms(3) len by (simp add: u32_def)
  then show "getResName w ?r = Inr (fst (getPorts m ! (?r + ?a + 1)))"
    using assms(1) len by (simp add: getResName_def getPortName_def getPort_def inCtrlIdx_def)
qed

lemma scalar_inputs_ok:
  assumes "firrtlOp w = Some m" "portCountInvariant (funcOp w) m"
    and "(i, t) \<in> set (enumerate 0 (getInputs (funcOp w)))" "\<not> isMemRef t" "base w' = base w"
  shows "fst (emitInputPort U t i w') = Success"
proof -
  have "i < length (getPorts m)"
    using assms(2,3) by (auto simp: portCountInvariant_def in_set_enumerate_eq)
  moreover have "firrtlOp w' = Some m"
    using assms(1,5) by (metis base_fields(4))
  ultimately show ?thesis using assms(4) by (simp add: emitInputPort_scalar)
qed

lemma outputs_ok:
  assumes "firrtlOp w = Some m" "portCountInvariant (funcOp w) m" "length (getPorts m) < 2 ^ 32"
    and "(i, t) \<in> set (enumerate 0 (getResults (funcOp w)))" "base w' = base w"
  shows "fst (emitOutputPort U t i w') = Success"
proof -
  have f: "firrtlOp w' = Some m" "funcOp w' = funcOp w"
    using assms(1,5) by (metis base_fields(4), metis base_fields(2))
  have "i + length (getInputs (funcOp w)) + 1 < length (getPorts m)"
    using assms(2,4) by (auto simp: portCountInvariant_def in_set_enumerate_eq)
  then have "u32 (i + length (getInputs (funcOp w')) + 1) < length (getPorts m)"
    using assms(3) f by (simp add: u32_def)
  then show ?thesis using f by (simp add: emitOutputPort_scalar)
qed

lemma emitPorts_scalars_ok:
  assumes "firrtlOp w = Some m" "portCountInvariant (funcOp w) m" "length (getPorts m) < 2 ^ 32"
    and "\<forall>t \<in> set (getInputs (funcOp w)). \<not> isMemRef t"
  shows "fst (emitPorts U (funcOp w) w) = Success"
proof -
  let ?w1 = "emit [Lit ''// - Input ports\<newline>''] w"
  have "fst (forEach (emitInputPort U) (enumerate 0 (getInputs (funcOp w))) ?w1) = Success"
  proof (rule forEach_all_ok [OF writes_emitInputPort])
    fix i v w'
    assume iv: "(i, v) \<in> set (enumerate 0 (getInputs (funcOp w)))" and "base w' = base ?w1"
    then have "base w' = base w" by simp
    moreover have "\<not> isMemRef v" using iv assms(4) by (auto simp: in_set_enumerate_eq)
    ultimately show "fst (emitInputPort U v i w') = Success"
      using scalar_inputs_ok [OF assms(1,2) iv] by blast
  qed
  then obtain w2 where w2: "forEach (emitInputPort U) (enumerate 0 (getInputs (funcOp w))) ?w1 =
      (Success, w2)" by (metis prod.collapse)
  from forEach_Success [OF writes_emitInputPort this]
  have b2: "base w2 = base w" by simp
  let ?w3 = "emit [Lit ''\<newline>// - Output ports\<newline>''] w2"
  have "fst (forEach (emitOutputPort U) (enumerate 0 (getResults (funcOp w))) ?w3) = Success"
  proof (rule forEach_all_ok [OF writes_emitOutputPort])
    fix i v w'
    assume iv: "(i, v) \<in> set (enumerate 0 (getResults (funcOp w)))" and "base w' = base ?w3"
    then have "base w' = base w" using b2 by simp
    then show "fst (emitOutputPort U v i w') = Success"
      using outputs_ok [OF assms(1-3) iv] by blast
  qed
  then obtain w4 where "forEach (emitOutputPort U) (enumerate 0 (getResults (funcOp w))) ?w3 =
      (Success, w4)" by (metis prod.collapse)
  with w2 show ?thesis by (simp add: emitPorts_def)
qed

lemma notCtrl_set: "list_all notCtrl ts \<Longrightarrow> inCtrlLit \<notin> set ts \<and> outCtrlLit \<notin> set ts"
  by (auto simp: list_all_iff notCtrl_def)

lemma count_ctrlWiring:
  "count_list (ctrlWiring a b) inCtrlLit = 1" "count_list (ctrlWiring a b) outCtrlLit = 1"
  by (simp_all add: ctrlWiring_def inCtrlLit_def outCtrlLit_def)

lemma count_once:
  "c \<notin> set pre \<Longrightarrow> c \<notin> set post \<Longrightarrow> count_list (pre @ mid @ post) c = count_list mid c"
  by (simp add: count_list_0_iff)

lemma emitSimulator_wiring:
  assumes "firrtlOp w = Some m" "portCountInvariant (funcOp w) m" "length (getPorts m) < 2 ^ 32"
  shows "\<exists>st post.
           emitSimulator U w =
             (st, emit (classHeader (funcName w) @
                        ctrlWiring (fst (getPorts m ! length (getInputs (funcOp w))))
                          (fst (getPorts m ! (length (getResults (funcOp w)) +
                                              length (getInputs (funcOp w)) + 1))) @
                        post) w) \<and>
           list_all notCtrl post \<and>
           ((\<forall>t \<in> set (getInputs (funcOp w)). \<not> isMemRef t) \<longrightarrow> st = Success)"
proof -
  let ?a = "fst (getPorts m ! length (getInputs (funcOp w)))"
  let ?b = "fst (getPorts m ! (length (getResults (funcOp w)) + length (getInputs (funcOp w)) + 1))"
  let ?w2 = "emit (classHeader (funcName w) @ ctrlWiring ?a ?b @
                   [Lit ''// --- Software interface\<newline>'']) w"
  have sim: "emitSimulator U w = emitPorts U (funcOp w) ?w2"
    using names_resolve [OF assms] by (simp add: emitSimulator_emitPorts)
  from writes_emitPorts obtain st ts where
    r: "emitPorts U (funcOp w) ?w2 = (st, emit ts ?w2)" "list_all notCtrl ts"
    by (rule writes_run)
  have "st = Success" if "\<forall>t \<in> set (getInputs (funcOp w)). \<not> isMemRef t"
    using emitPorts_scalars_ok [of ?w2 m U] assms that r(1) by simp
  then show ?thesis
    using sim r
    by (intro exI [of _ st] exI [of _ "Lit ''// --- Software interface\<newline>'' # ts"]) simp
qed

lemma emitPreamble_wiring:
  assumes "portCountInvariant (funcOp w) m" "length (getPorts m) < 2 ^ 32"
    and "emitIOTypes U (funcOp w) = (True, iot)"
  shows "\<exists>st pre post.
           emitPreamble U (Some (FModuleLikeOp m)) w =
             (st, (emit (pre @
                         ctrlWiring (fst (getPorts m ! length (getInputs (funcOp w))))
                           (fst (getPorts m ! (length (getResults (funcOp w)) +
                                               length (getInputs (funcOp w)) + 1))) @
                         post) w)\<lparr>firrtlOp := Some m\<rparr>) \<and>
           inCtrlLit \<notin> set pre \<and> inCtrlLit \<notin> set post \<and>
           outCtrlLit \<notin> set pre \<and> outCtrlLit \<notin> set post \<and>
           ((\<forall>t \<in> set (getInputs (funcOp w)). \<not> isMemRef t) \<longrightarrow> st = Success)"
proof -
  let ?a = "fst (getPorts m ! length (getInputs (funcOp w)))"
  let ?b = "fst (getPorts m ! (length (getResults (funcOp w)) + length (getInputs (funcOp w)) + 1))"
  let ?w0 = "simStart w m iot"
  let ?pre = "Ext iot # aliases (funcName w) @ classHeader (funcName w)"
  from emitSimulator_wiring [of ?w0 m U] assms(1,2) obtain st post where
    sim: "emitSimulator U ?w0 = (st, emit (classHeader (funcName w) @ ctrlWiring ?a ?b @ post) ?w0)"
    and post: "list_all notCtrl post"
    and ok: "(\<forall>t \<in> set (getInputs (funcOp w)). \<not> isMemRef t) \<longrightarrow> st = Success"
    by auto
  have pre: "list_all notCtrl ?pre"
    by (simp add: aliases_def classHeader_def)
  have w0: "emit ts ?w0 = (emit (Ext iot # aliases (funcName w) @ ts) w)\<lparr>firrtlOp := Some m\<rparr>" for ts
    by (simp add: simStart_def emit_firrtlOp_update)
  show ?thesis
  proof (cases "st = Success")
    case True
    have "emitPreamble U (Some (FModuleLikeOp m)) w =
        (Success, (emit (?pre @ ctrlWiring ?a ?b @ (post @ driverAlias (funcName w))) w)
                    \<lparr>firrtlOp := Some m\<rparr>)"
      using sim True by (simp add: emitPreamble_types_ok [OF assms(3)] w0)
    moreover have "list_all notCtrl (post @ driverAlias (funcName w))"
      using post by (simp add: driverAlias_def)
    ultimately show ?thesis
      using notCtrl_set [OF pre] True
      by (intro exI [of _ Success] exI [of _ ?pre] exI [of _ "post @ driverAlias (funcName w)"])
         (simp add: notCtrl_set)
  next
    case False
    have "emitPreamble U (Some (FModuleLikeOp m)) w =
        (st, (emit (?pre @ ctrlWiring ?a ?b @ post) w)\<lparr>firrtlOp := Some m\<rparr>)"
      using sim False by (cases st) (simp_all add: emitPreamble_types_ok [OF assms(3)] w0)
    then show ?thesis
      using notCtrl_set [OF pre] notCtrl_set [OF post] ok
      by (intro exI [of _ st] exI [of _ ?pre] exI [of _ post]) simp
  qed
qed

lemma sampleUtils_emitIOTypes: "emitIOTypes sampleUtils f = (True, sampleTypes)"
  by (simp add: sampleUtils_def sampleTypes_def)

lemma emitExtMemPort_wrong_users:
  assumes "firrtlOp w = Some m" "idx < length (getPorts m)"
    and "getPorts m ! idx = (name, BundleType sigs)"
    and "resolveAddrWidth sigs = Inr aw"
    and "hsOp w = Some hs"
    and "emitVerilatorType U (getLoc hs) elt = (True, elemT)"
    and "emitVerilatorTypeFromWidth U (getLoc hs) aw = (True, addrT)"
    and "idx < length (getArgUsers hs)" "length (getArgUsers hs ! idx) \<noteq> 1"
  shows "emitExtMemPort U (MemRefType [n] elt) idx w =
           (Halted wrongUserCount, emit (memDecl name elemT addrT n) w)"
  using emitExtMemPort_decl_only [OF assms(1-7), of n] assms(8,9)
  by (simp add: emitMemPorts_def getExtMemOp_def wrongUserCount_def)

lemma writes_status:
  assumes "writes Q f" "base w' = base w"
  shows "fst (f w') = fst (f w)"
proof -
  have "f w' = (fst (f (base w')), emit (out (snd (f (base w')))) w')"
    and "f w = (fst (f (base w)), emit (out (snd (f (base w)))) w)"
    using assms(1) unfolding writes_def by blast+
  then have "fst (f w') = fst (f (base w'))" "fst (f w) = fst (f (base w))"
    by (metis fst_conv)+
  then show ?thesis using assms(2) by simp
qed

lemma forEach_status:
  assumes "\<And>v j. writes Q (body v j)"
  shows "fst (forEach body xs w) = Success \<longleftrightarrow> (\<forall>(i, v) \<in> set xs. fst (body v i w) = Success)"
proof (induction xs arbitrary: w)
  case Nil
  then show ?case by simp
next
  case (Cons x xs)
  obtain i v where x: "x = (i, v)" by (cases x)
  from assms obtain st ts where r: "body v i w = (st, emit ts w)"
    by (rule writes_run)
  show ?case
  proof (cases "st = Success")
    case True
    have "fst (body u j (emit ts w)) = fst (body u j w)" for u j
      by (rule writes_status [OF assms]) simp
    then show ?thesis using r True Cons.IH [of "emit ts w"] by (simp add: x)
  next
    case False
    then show ?thesis using r by (cases st) (simp_all add: x)
  qed
qed

lemma emitPorts_status:
  assumes "firrtlOp w = Some m" "portCountInvariant (funcOp w) m" "length (getPorts m) < 2 ^ 32"
  shows "fst (emitPorts U (funcOp w) w) = Success \<longleftrightarrow>
         (\<forall>(i, t) \<in> set (enumerate 0 (getInputs (funcOp w))).
            isMemRef t \<longrightarrow> fst (emitExtMemPort U t i w) = Success)"
proof -
  let ?w1 = "emit [Lit ''// - Input ports\<newline>''] w"
  let ?ins = "forEach (emitInputPort U) (enumerate 0 (getInputs (funcOp w))) ?w1"
  have step: "fst (emitInputPort U t i ?w1) = Success \<longleftrightarrow>
              (isMemRef t \<longrightarrow> fst (emitExtMemPort U t i w) = Success)"
    if "(i, t) \<in> set (enumerate 0 (getInputs (funcOp w)))" for i t
  proof (cases "isMemRef t")
    case True
    have "fst (emitExtMemPort U t i ?w1) = fst (emitExtMemPort U t i w)"
      by (rule writes_status [OF writes_emitExtMemPort]) simp
    then show ?thesis using True by (simp add: emitInputPort_def)
  next
    case False
    then show ?thesis
      using scalar_inputs_ok [OF assms(1,2) that False, of ?w1 U] by simp
  qed
  have ins: "fst ?ins = Success \<longleftrightarrow>
      (\<forall>(i, t) \<in> set (enumerate 0 (getInputs (funcOp w))).
            isMemRef t \<longrightarrow> fst (emitExtMemPort U t i w) = Success)"
    unfolding forEach_status [OF writes_emitInputPort] using step by blast
  show ?thesis
  proof (cases "fst ?ins = Success")
    case True
    then obtain w2 where w2: "?ins = (Success, w2)" by (metis prod.collapse)
    from forEach_Success [OF writes_emitInputPort this] have b2: "base w2 = base w" by simp
    let ?w3 = "emit [Lit ''\<newline>// - Output ports\<newline>''] w2"
    have "fst (forEach (emitOutputPort U) (enumerate 0 (getResults (funcOp w))) ?w3) = Success"
    proof (rule forEach_all_ok [OF writes_emitOutputPort])
      fix i v w'
      assume iv: "(i, v) \<in> set (enumerate 0 (getResults (funcOp w)))" and "base w' = base ?w3"
      then have "base w' = base w" using b2 by simp
      then show "fst (emitOutputPort U v i w') = Success"
        using outputs_ok [OF assms(1-3) iv] by blast
    qed
    then obtain w4 where "forEach (emitOutputPort U) (enumerate 0 (getResults (funcOp w))) ?w3 =
        (Success, w4)" by (metis prod.collapse)
    with w2 have "fst (emitPorts U (funcOp w) w) = Success" by (simp add: emitPorts_def)
    then show ?thesis using True ins by simp
  next
    case False
    obtain st w2 where r: "?ins = (st, w2)" by (cases ?ins)
    with False have "st \<noteq> Success" by simp
    with r have "fst (emitPorts U (funcOp w) w) \<noteq> Success"
      by (cases st) (simp_all add: emitPorts_def)
    then show ?thesis using False ins by simp
  qed
qed

lemma emitPreamble_status:
  assumes "portCountInvariant (funcOp w) m" "length (getPorts m) < 2 ^ 32"
    and "emitIOTypes U (funcOp w) = (True, iot)"
  shows "fst (emitPreamble U (Some (FModuleLikeOp m)) w) = Success \<longleftrightarrow>
         (\<forall>(i, t) \<in> set (enumerate 0 (getInputs (funcOp w))).
            isMemRef t \<longrightarrow> fst (emitExtMemPort U t i (simStart w m iot)) = Success)"
proof -
  let ?w0 = "simStart w m iot"
  let ?a = "fst (getPorts m ! length (getInputs (funcOp w)))"
  let ?b = "fst (getPorts m ! (length (getResults (funcOp w)) + length (getInputs (funcOp w)) + 1))"
  let ?w2 = "emit (classHeader (funcName w) @ ctrlWiring ?a ?b @
                   [Lit ''// --- Software interface\<newline>'']) ?w0"
  have sim: "emitSimulator U ?w0 = emitPorts U (funcOp ?w2) ?w2"
    using names_resolve [of ?w0 m] assms(1,2) by (simp add: emitSimulator_emitPorts)
  have "fst (emitPorts U (funcOp ?w2) ?w2) = Success \<longleftrightarrow>
         (\<forall>(i, t) \<in> set (enumerate 0 (getInputs (funcOp ?w2))).
            isMemRef t \<longrightarrow> fst (emitExtMemPort U t i ?w2) = Success)"
    using assms(1,2) by (intro emitPorts_status [where m = m]) simp_all
  moreover have "fst (emitExtMemPort U t i ?w2) = fst (emitExtMemPort U t i ?w0)" for t i
    by (rule writes_status [OF writes_emitExtMemPort]) simp
  moreover have "fst (emitPreamble U (Some (FModuleLikeOp m)) w) = Success \<longleftrightarrow>
      fst (emitSimulator U ?w0) = Success"
    by (cases "emitSimulator U ?w0"; cases "fst (emitSimulator U ?w0)")
       (simp_all add: emitPreamble_types_ok [OF assms(3)])
  ultimately show ?thesis using sim by simp
qed

text \<open>
  C1, as the claim words it, does not hold: generation does not succeed on every pair that
  satisfies the port-count invariant. The kernel over one memory and its module satisfy the
  invariant; when two operations use the memory, generation stops at the assertion on the
  number of users. The scalar kernel and its module satisfy it too; when the I/O types
  cannot be written, generation fails before any control wiring is written.
\<close>

theorem generation_can_stop_counterexample:
  "portCountInvariant memFunc memModule \<and>
   fst (emitPreamble sampleUtils (Some (FModuleLikeOp memModule)) (memWrapper twoUsersRef)) =
     Halted (AssertionFailure ''expected exactly 1 user of a memref input argument'') \<and>
   portCountInvariant scalarFunc scalarModule \<and>
   emitPreamble (sampleUtils\<lparr>emitIOTypes := \<lambda>f. (False, ''unsupported'')\<rparr>)
     (Some (FModuleLikeOp scalarModule)) scalarWrapper =
     (Failure, emit [Ext ''unsupported''] scalarWrapper)"
proof -
  have types: "portCountInvariant scalarFunc scalarModule"
    "emitPreamble (sampleUtils\<lparr>emitIOTypes := \<lambda>f. (False, ''unsupported'')\<rparr>)
       (Some (FModuleLikeOp scalarModule)) scalarWrapper =
     (Failure, emit [Ext ''unsupported''] scalarWrapper)"
    by (simp add: portCountInvariant_def scalarFunc_def scalarModule_def)
       (rule emitPreamble_types_fail, simp)
  let ?W0 = "simStart (memWrapper twoUsersRef) memModule sampleTypes"
  let ?W2 = "emit (classHeader ''f'' @ ctrlWiring ''inCtrl'' ''outCtrl'' @
                   [Lit ''// --- Software interface\<newline>'']) ?W0"
  let ?W3 = "emit [Lit ''// - Input ports\<newline>''] ?W2"
  have inv: "portCountInvariant memFunc memModule"
    by (simp add: portCountInvariant_def memFunc_def memModule_def)
  have names: "getInputName ?W0 (inCtrlIdx ?W0) = Inr ''inCtrl''"
    "getResName ?W0 (length (getResults (funcOp ?W0))) = Inr ''outCtrl''"
    by (simp_all add: getInputName_def getResName_def getPortName_def getPort_def inCtrlIdx_def
        memWrapper_def memFunc_def memModule_def u32_def)
  have "emitExtMemPort sampleUtils (MemRefType [8] (IntegerType 32)) 0 ?W3 =
      (Halted wrongUserCount, emit (memDecl ''in0'' ''uint32_t'' ''uint64_t'' 8) ?W3)"
    by (rule emitExtMemPort_wrong_users [where m = memModule and sigs = memBundle and aw = 64
          and hs = twoUsersRef])
       (simp_all add: memWrapper_def memModule_def twoUsersRef_def resolveAddrWidth_memBundle
          sampleUtils_simps)
  then have "fst (emitPorts sampleUtils memFunc ?W2) = Halted wrongUserCount"
    by (simp add: emitPorts_def memFunc_def emitInputPort_def)
  then have "fst (emitSimulator sampleUtils ?W0) = Halted wrongUserCount"
    using names by (simp add: emitSimulator_emitPorts memWrapper_def)
  then have "fst (emitPreamble sampleUtils (Some (FModuleLikeOp memModule)) (memWrapper twoUsersRef)) =
      Halted wrongUserCount"
    by (cases "emitSimulator sampleUtils ?W0")
       (simp add: emitPreamble_types_ok [OF sampleUtils_emitIOTypes])
  with inv types show ?thesis by (simp add: wrongUserCount_def)
qed

lemma memory_expansion_ok:
  "fst (emitExtMemPort sampleUtils (MemRefType [8] (IntegerType 32)) 0
          (simStart (memWrapper (memRef 1 0)) memModule sampleTypes)) = Success"
proof -
  have "emitExtMemPort sampleUtils (MemRefType [8] (IntegerType 32)) 0
          (simStart (memWrapper (memRef 1 0)) memModule sampleTypes) =
        (Success,
         emit (memDecl ''in0'' ''uint32_t'' ''uint64_t'' 8 @
               concat (map (loadPortReg ''in0'' ''uint32_t'' ''uint64_t'') [0..<1]) @
               concat (map (storePortReg ''in0'' ''uint32_t'' ''uint64_t'') [0..<0]))
           (simStart (memWrapper (memRef 1 0)) memModule sampleTypes))"
    by (rule emitExtMemPort_ok [where m = memModule and sigs = memBundle and aw = 64
          and hs = "memRef 1 0"])
       (simp_all add: memWrapper_def memModule_def memRef_def resolveAddrWidth_memBundle
          sampleUtils_simps)
  then show ?thesis by simp
qed

text \<open>
  C1, amended. For a function and a module that satisfy the port-count invariant, with
  fewer than \<open>2\<^sup>3\<^sup>2\<close> ports, and whose I/O types can be written: whatever the numbers of
  arguments and results, \<^verbatim>\<open>emitPreamble\<close> writes the wiring of the control input, taken
  from the port at index \<open>argumentCount\<close>, and the wiring of the control output, taken from
  the port at index \<open>resultCount + argumentCount + 1\<close>, and each of the two literals that
  open a control wiring occurs exactly once in what it writes. It succeeds exactly when
  the expansion of every memory argument succeeds; in particular it succeeds when no
  argument is a memory.
\<close>

theorem control_ports_wired_once:
  assumes "portCountInvariant (funcOp w) m" "length (getPorts m) < 2 ^ 32"
    and "emitIOTypes U (funcOp w) = (True, iot)"
  shows "\<exists>st pre post.
           emitPreamble U (Some (FModuleLikeOp m)) w =
             (st, (emit (pre @
                         ctrlWiring (fst (getPorts m ! length (getInputs (funcOp w))))
                           (fst (getPorts m ! (length (getResults (funcOp w)) +
                                               length (getInputs (funcOp w)) + 1))) @
                         post) w)\<lparr>firrtlOp := Some m\<rparr>) \<and>
           inCtrlLit \<notin> set pre \<and> inCtrlLit \<notin> set post \<and>
           outCtrlLit \<notin> set pre \<and> outCtrlLit \<notin> set post \<and>
           count_list (emitted w (snd (emitPreamble U (Some (FModuleLikeOp m)) w))) inCtrlLit = 1 \<and>
           count_list (emitted w (snd (emitPreamble U (Some (FModuleLikeOp m)) w))) outCtrlLit = 1 \<and>
           (st = Success \<longleftrightarrow>
              (\<forall>(i, t) \<in> set (enumerate 0 (getInputs (funcOp w))).
                 isMemRef t \<longrightarrow> fst (emitExtMemPort U t i (simStart w m iot)) = Success))"
proof -
  from emitPreamble_wiring [OF assms] obtain st pre post where
    r: "emitPreamble U (Some (FModuleLikeOp m)) w =
             (st, (emit (pre @
                         ctrlWiring (fst (getPorts m ! length (getInputs (funcOp w))))
                           (fst (getPorts m ! (length (getResults (funcOp w)) +
                                               length (getInputs (funcOp w)) + 1))) @
                         post) w)\<lparr>firrtlOp := Some m\<rparr>)"
    and n: "inCtrlLit \<notin> set pre" "inCtrlLit \<notin> set post"
           "outCtrlLit \<notin> set pre" "outCtrlLit \<notin> set post"
    by blast
  have "count_list (emitted w (snd (emitPreamble U (Some (FModuleLikeOp m)) w))) inCtrlLit = 1"
    "count_list (emitted w (snd (emitPreamble U (Some (FModuleLikeOp m)) w))) outCtrlLit = 1"
    unfolding r using n by (simp_all add: emitted_def count_once count_ctrlWiring)
  moreover have "st = Success \<longleftrightarrow>
              (\<forall>(i, t) \<in> set (enumerate 0 (getInputs (funcOp w))).
                 isMemRef t \<longrightarrow> fst (emitExtMemPort U t i (simStart w m iot)) = Success)"
    using emitPreamble_status [OF assms] r by simp
  ultimately show ?thesis using r n by blast
qed

theorem control_ports_wired_once_witness:
  "(\<exists>pre post.
      emitPreamble sampleUtils (Some (FModuleLikeOp unitModule)) unitWrapper =
        (Success, (emit (pre @ ctrlWiring ''inCtrl'' ''outCtrl'' @ post) unitWrapper)
                    \<lparr>firrtlOp := Some unitModule\<rparr>) \<and>
      inCtrlLit \<notin> set pre \<and> inCtrlLit \<notin> set post \<and>
      outCtrlLit \<notin> set pre \<and> outCtrlLit \<notin> set post)
   \<and> (\<exists>pre post.
      emitPreamble sampleUtils (Some (FModuleLikeOp scalarModule)) scalarWrapper =
        (Success, (emit (pre @ ctrlWiring ''inCtrl'' ''outCtrl'' @ post) scalarWrapper)
                    \<lparr>firrtlOp := Some scalarModule\<rparr>) \<and>
      inCtrlLit \<notin> set pre \<and> inCtrlLit \<notin> set post \<and>
      outCtrlLit \<notin> set pre \<and> outCtrlLit \<notin> set post)
   \<and> (\<exists>pre post.
      emitPreamble sampleUtils (Some (FModuleLikeOp memModule)) (memWrapper (memRef 1 0)) =
        (Success, (emit (pre @ ctrlWiring ''inCtrl'' ''outCtrl'' @ post) (memWrapper (memRef 1 0)))
                    \<lparr>firrtlOp := Some memModule\<rparr>) \<and>
      inCtrlLit \<notin> set pre \<and> inCtrlLit \<notin> set post \<and>
      outCtrlLit \<notin> set pre \<and> outCtrlLit \<notin> set post)"
proof -
  have u: "portCountInvariant (funcOp unitWrapper) unitModule" "length (getPorts unitModule) < 2 ^ 32"
    "getInputs (funcOp unitWrapper) = []" "getResults (funcOp unitWrapper) = []"
    "getPorts unitModule = [(''inCtrl'', ctrlChannel), (''outCtrl'', ctrlChannel)]"
    by (simp_all add: portCountInvariant_def unitWrapper_def unitFunc_def unitModule_def)
  have s: "portCountInvariant (funcOp scalarWrapper) scalarModule"
    "length (getPorts scalarModule) < 2 ^ 32"
    "getInputs (funcOp scalarWrapper) = [IntegerType 32]"
    "getResults (funcOp scalarWrapper) = [IntegerType 32]"
    "getPorts scalarModule = [(''in0'', dataChannel 32), (''inCtrl'', ctrlChannel),
                  (''out0'', dataChannel 32), (''outCtrl'', ctrlChannel)]"
    by (simp_all add: portCountInvariant_def scalarWrapper_def scalarFunc_def scalarModule_def)
  have b: "portCountInvariant (funcOp (memWrapper (memRef 1 0))) memModule"
    "length (getPorts memModule) < 2 ^ 32"
    "getInputs (funcOp (memWrapper (memRef 1 0))) = [MemRefType [8] (IntegerType 32)]"
    "getResults (funcOp (memWrapper (memRef 1 0))) = []"
    "getPorts memModule = [(''in0'', BundleType memBundle), (''inCtrl'', ctrlChannel),
                  (''outCtrl'', ctrlChannel)]"
    by (simp_all add: portCountInvariant_def memWrapper_def memFunc_def memModule_def)
  from control_ports_wired_once [OF u(1,2) sampleUtils_emitIOTypes]
  have 1: "\<exists>pre post.
      emitPreamble sampleUtils (Some (FModuleLikeOp unitModule)) unitWrapper =
        (Success, (emit (pre @ ctrlWiring ''inCtrl'' ''outCtrl'' @ post) unitWrapper)
                    \<lparr>firrtlOp := Some unitModule\<rparr>) \<and>
      inCtrlLit \<notin> set pre \<and> inCtrlLit \<notin> set post \<and>
      outCtrlLit \<notin> set pre \<and> outCtrlLit \<notin> set post"
    unfolding u(3,4,5) by simp blast
  from control_ports_wired_once [OF s(1,2) sampleUtils_emitIOTypes]
  have 2: "\<exists>pre post.
      emitPreamble sampleUtils (Some (FModuleLikeOp scalarModule)) scalarWrapper =
        (Success, (emit (pre @ ctrlWiring ''inCtrl'' ''outCtrl'' @ post) scalarWrapper)
                    \<lparr>firrtlOp := Some scalarModule\<rparr>) \<and>
      inCtrlLit \<notin> set pre \<and> inCtrlLit \<notin> set post \<and>
      outCtrlLit \<notin> set pre \<and> outCtrlLit \<notin> set post"
    unfolding s(3,4,5) by simp blast
  from control_ports_wired_once [OF b(1,2) sampleUtils_emitIOTypes] memory_expansion_ok
  have 3: "\<exists>pre post.
      emitPreamble sampleUtils (Some (FModuleLikeOp memModule)) (memWrapper (memRef 1 0)) =
        (Success, (emit (pre @ ctrlWiring ''inCtrl'' ''outCtrl'' @ post) (memWrapper (memRef 1 0)))
                    \<lparr>firrtlOp := Some memModule\<rparr>) \<and>
      inCtrlLit \<notin> set pre \<and> inCtrlLit \<notin> set post \<and>
      outCtrlLit \<notin> set pre \<and> outCtrlLit \<notin> set post"
    unfolding b(3,4,5) by simp blast
  from 1 2 3 show ?thesis by blast
qed

section \<open>Determinism and order of emission\<close>

lemma anyTok_simp [simp]: "anyTok t"
  by (simp add: anyTok_def)

lemma list_all_anyTok [simp]: "list_all anyTok ts"
  by (simp add: list_all_iff)

lemma writes_weaken:
  assumes "writes Q f"
  shows "writes anyTok f"
proof (rule writes_of_runs)
  fix w
  from assms obtain st ts where "f w = (st, emit ts w)" "f (base w) = (st, emit ts (base w))"
    by (rule writes_run)
  then show "\<exists>st ts. f w = (st, emit ts w) \<and> f (base w) = (st, emit ts (base w)) \<and>
      list_all anyTok ts" by auto
qed

lemma writes_emitSimulator: "writes anyTok (emitSimulator U)"
proof (rule writes_local)
  fix w
  let ?goal = "\<exists>g. writes anyTok g \<and> emitSimulator U w = g w \<and> emitSimulator U (base w) = g (base w)"
  have stop: ?goal
    if "emitSimulator U w = (Halted h, emit (classHeader (funcName w)) w)"
       "emitSimulator U (base w) = (Halted h, emit (classHeader (funcName w)) (base w))" for h
    using that
    by (intro exI [of _ "\<lambda>w'. (Halted h, emit (classHeader (funcName w)) w')"])
       (simp add: writes_return)
  show ?goal
  proof (cases "getInputName w (inCtrlIdx w)")
    case (Inl h)
    then show ?thesis by (intro stop [of h]) (simp_all add: emitSimulator_def Let_def)
  next
    case a: (Inr a)
    show ?thesis
    proof (cases "getResName w (length (getResults (funcOp w)))")
      case (Inl h)
      then show ?thesis using a by (intro stop [of h]) (simp_all add: emitSimulator_def Let_def)
    next
      case b: (Inr b)
      let ?ts = "classHeader (funcName w) @ ctrlWiring a b @ [Lit ''// --- Software interface\<newline>'']"
      have "writes anyTok (\<lambda>w'. emitPorts U (funcOp w) (emit ?ts w'))"
        by (rule writes_after_emit [OF writes_weaken [OF writes_emitPorts]])
           simp
      then show ?thesis using a b
        by (intro exI [of _ "\<lambda>w'. emitPorts U (funcOp w) (emit ?ts w')"])
           (simp add: emitSimulator_emitPorts)
    qed
  qed
qed

lemma writes_emitTail: "writes anyTok (emitTail U)"
proof (rule writes_local)
  fix w :: wrapper
  have "writes anyTok (\<lambda>w'. (Success, emit (driverAlias (funcName w)) w'))"
    by (rule writes_return) simp
  from writes_andThen [OF writes_emitSimulator this]
  have g: "writes anyTok (\<lambda>w'. andThen (emitSimulator U w')
              (\<lambda>w'. (Success, emit (driverAlias (funcName w)) w')))" .
  have same: "andThen (emitSimulator U w') (\<lambda>w'. (Success, emit (driverAlias (funcName w')) w')) =
              andThen (emitSimulator U w') (\<lambda>w'. (Success, emit (driverAlias (funcName w)) w'))"
    if "funcName w' = funcName w" for w'
  proof -
    from writes_emitSimulator obtain st ts where "emitSimulator U w' = (st, emit ts w')"
      by (rule writes_run)
    then show ?thesis using that by (cases st) simp_all
  qed
  show "\<exists>g. writes anyTok g \<and> emitTail U w = g w \<and> emitTail U (base w) = g (base w)"
    using g same [of w] same [of "base w"]
    by (intro exI [of _ "\<lambda>w'. andThen (emitSimulator U w')
              (\<lambda>w'. (Success, emit (driverAlias (funcName w)) w'))"]) (simp add: emitTail_def)
qed

lemma base_simStart:
  "base (simStart w m iot) =
     \<lparr>funcName = funcName w, funcOp = funcOp w, hsOp = hsOp w, firrtlOp = Some m,
      out = [], diags = []\<rparr>"
  by (cases w) (simp add: base_def simStart_def emit_def)

lemma base_firrtlOp_update:
  "base (w\<lparr>firrtlOp := Some m\<rparr>) =
     \<lparr>funcName = funcName w, funcOp = funcOp w, hsOp = hsOp w, firrtlOp = Some m,
      out = [], diags = []\<rparr>"
  by (cases w) (simp add: base_def)

lemma emitPreamble_tail:
  assumes "emitIOTypes U (funcOp w) = (True, iot)"
  shows "emitPreamble U (Some (FModuleLikeOp m)) w = emitTail U (simStart w m iot)"
  by (simp add: emitPreamble_types_ok [OF assms] emitTail_def)

lemma emitPreamble_emitted:
  assumes "emitIOTypes U (funcOp w) = (True, iot)"
  shows "fst (emitPreamble U (Some (FModuleLikeOp m)) w) = fst (emitTail U (base (simStart w m iot)))"
    and "emitted w (snd (emitPreamble U (Some (FModuleLikeOp m)) w)) =
           Ext iot # aliases (funcName w) @ out (snd (emitTail U (base (simStart w m iot))))"
proof -
  from writes_emitTail obtain st ts where
    r: "emitTail U (simStart w m iot) = (st, emit ts (simStart w m iot))"
       "emitTail U (base (simStart w m iot)) = (st, emit ts (base (simStart w m iot)))"
    by (rule writes_run)
  show "fst (emitPreamble U (Some (FModuleLikeOp m)) w) = fst (emitTail U (base (simStart w m iot)))"
    using r by (simp add: emitPreamble_tail [OF assms])
  show "emitted w (snd (emitPreamble U (Some (FModuleLikeOp m)) w)) =
           Ext iot # aliases (funcName w) @ out (snd (emitTail U (base (simStart w m iot))))"
    using r by (simp add: emitPreamble_tail [OF assms] emitted_def)
qed

lemma emitPreamble_same:
  assumes "funcName w1 = funcName w2" "funcOp w1 = funcOp w2" "hsOp w1 = hsOp w2"
  shows "fst (emitPreamble U k w1) = fst (emitPreamble U k w2)"
    and "emitted w1 (snd (emitPreamble U k w1)) = emitted w2 (snd (emitPreamble U k w2))"
proof -
  have "fst (emitPreamble U k w1) = fst (emitPreamble U k w2) \<and>
        emitted w1 (snd (emitPreamble U k w1)) = emitted w2 (snd (emitPreamble U k w2))"
  proof (cases k)
    case None
    then show ?thesis by (simp add: emitPreamble_def emitted_def)
  next
    case (Some op)
    show ?thesis
    proof (cases op)
      case (FModuleLikeOp m)
      obtain ok iot where io: "emitIOTypes U (funcOp w1) = (ok, iot)"
        by (cases "emitIOTypes U (funcOp w1)")
      show ?thesis
      proof (cases ok)
        case True
        have b: "base (simStart w1 m iot) = base (simStart w2 m iot)"
          using assms by (simp add: base_simStart)
        have io1: "emitIOTypes U (funcOp w1) = (True, iot)"
          and io2: "emitIOTypes U (funcOp w2) = (True, iot)"
          using io True assms by simp_all
        show ?thesis
          unfolding Some FModuleLikeOp emitPreamble_emitted [OF io1] emitPreamble_emitted [OF io2] b
          using assms(1) by simp
      next
        case False
        then show ?thesis using io assms
          by (simp add: Some FModuleLikeOp emitPreamble_types_fail)
      qed
    next
      case (HandshakeFuncOp hs)
      then show ?thesis using Some by (simp add: emitPreamble_def emitted_def)
    next
      case (OtherOp n)
      then show ?thesis using Some by (simp add: emitPreamble_def emitted_def)
    qed
  qed
  then show "fst (emitPreamble U k w1) = fst (emitPreamble U k w2)"
    and "emitted w1 (snd (emitPreamble U k w1)) = emitted w2 (snd (emitPreamble U k w2))"
    by simp_all
qed

lemma andThen_Success_eq:
  "andThen r f = (Success, w') \<Longrightarrow> \<exists>w1. r = (Success, w1) \<and> f w1 = (Success, w')"
  by (cases r) (auto simp: andThen_def split: status.splits)

lemma emitPorts_Success:
  assumes "emitPorts U (funcOp w) w = (Success, w')"
  shows "w' = emit (portsText U w) w"
proof -
  let ?w1 = "emit [Lit ''// - Input ports\<newline>''] w"
  from assms obtain w2 w4 where
    ins: "forEach (emitInputPort U) (enumerate 0 (getInputs (funcOp w))) ?w1 = (Success, w2)"
    and outs: "forEach (emitOutputPort U) (enumerate 0 (getResults (funcOp w)))
                 (emit [Lit ''\<newline>// - Output ports\<newline>''] w2) = (Success, w4)"
    and w': "w' = emit classFooter w4"
    unfolding emitPorts_def by (auto dest!: andThen_Success_eq)
  have w2: "w2 = emit (concat (map (\<lambda>(i, t). inputPortText U w t i)
                          (enumerate 0 (getInputs (funcOp w))))) ?w1"
    using forEach_Success [OF writes_emitInputPort ins] by (simp add: inputPortText_def)
  then have b2: "base w2 = base w" by simp
  have w4: "w4 = emit (concat (map (\<lambda>(i, t). outputPortText U w t i)
                          (enumerate 0 (getResults (funcOp w)))))
                   (emit [Lit ''\<newline>// - Output ports\<newline>''] w2)"
    using forEach_Success [OF writes_emitOutputPort outs] b2 by (simp add: outputPortText_def)
  show ?thesis unfolding w' w4 by (subst w2) (simp add: portsText_def)
qed

lemma portsText_base: "base w1 = base w2 \<Longrightarrow> portsText U w1 = portsText U w2"
proof -
  assume b: "base w1 = base w2"
  then have "funcOp w1 = funcOp w2" by (metis base_fields(2))
  with b show ?thesis by (simp add: portsText_def inputPortText_def outputPortText_def)
qed

lemma emitSimulator_Success:
  assumes "emitSimulator U w = (Success, w')"
  shows "\<exists>a b. w' = emit (classHeader (funcName w) @ ctrlWiring a b @
                         [Lit ''// --- Software interface\<newline>''] @ portsText U w) w"
proof -
  from assms obtain a where a: "getInputName w (inCtrlIdx w) = Inr a"
    by (cases "getInputName w (inCtrlIdx w)") (simp_all add: emitSimulator_def Let_def)
  from assms a obtain b where b: "getResName w (length (getResults (funcOp w))) = Inr b"
    by (cases "getResName w (length (getResults (funcOp w)))")
       (simp_all add: emitSimulator_def Let_def)
  let ?w2 = "emit (classHeader (funcName w) @ ctrlWiring a b @
                   [Lit ''// --- Software interface\<newline>'']) w"
  have "emitPorts U (funcOp ?w2) ?w2 = (Success, w')"
    using assms by (simp add: emitSimulator_emitPorts [OF a b])
  from emitPorts_Success [OF this] have "w' = emit (portsText U ?w2) ?w2" .
  moreover have "portsText U ?w2 = portsText U w" by (rule portsText_base) simp
  ultimately show ?thesis by (intro exI [of _ a] exI [of _ b]) simp
qed

lemma emitPreamble_Success:
  assumes "fst (emitPreamble U k w) = Success"
  shows "\<exists>m iot a b. k = Some (FModuleLikeOp m) \<and> emitIOTypes U (funcOp w) = (True, iot) \<and>
           emitted w (snd (emitPreamble U k w)) =
             Ext iot # aliases (funcName w) @ classHeader (funcName w) @ ctrlWiring a b @
             [Lit ''// --- Software interface\<newline>''] @
             portsText U (w\<lparr>firrtlOp := Some m\<rparr>) @ driverAlias (funcName w)"
proof -
  from assms obtain m where k: "k = Some (FModuleLikeOp m)"
    by (cases k; cases "the k") (simp_all add: emitPreamble_def)
  obtain ok iot where io: "emitIOTypes U (funcOp w) = (ok, iot)"
    by (cases "emitIOTypes U (funcOp w)")
  have ok: ok using assms io k by (cases ok) (simp_all add: emitPreamble_types_fail)
  with io have io: "emitIOTypes U (funcOp w) = (True, iot)" by simp
  let ?w0 = "simStart w m iot"
  from assms obtain w1 where sim: "emitSimulator U ?w0 = (Success, w1)"
    unfolding k emitPreamble_types_ok [OF io]
    by (cases "emitSimulator U ?w0"; cases "fst (emitSimulator U ?w0)") auto
  from emitSimulator_Success [OF sim] obtain a b where
    w1: "w1 = emit (classHeader (funcName w) @ ctrlWiring a b @
                    [Lit ''// --- Software interface\<newline>''] @ portsText U ?w0) ?w0" by auto
  have pt: "portsText U ?w0 = portsText U (w\<lparr>firrtlOp := Some m\<rparr>)"
    by (rule portsText_base) (simp add: base_simStart base_firrtlOp_update)
  have "emitted w (snd (emitPreamble U k w)) =
      Ext iot # aliases (funcName w) @ classHeader (funcName w) @ ctrlWiring a b @
             [Lit ''// --- Software interface\<newline>''] @
             portsText U ?w0 @ driverAlias (funcName w)"
    unfolding k emitPreamble_types_ok [OF io] sim
    by (simp add: w1 emitted_def)
  then show ?thesis using k io pt by auto
qed

lemma emitPreamble_scalars_ok:
  assumes "portCountInvariant (funcOp w) m" "length (getPorts m) < 2 ^ 32"
    and "emitIOTypes U (funcOp w) = (True, iot)"
    and "\<forall>t \<in> set (getInputs (funcOp w)). \<not> isMemRef t"
  shows "fst (emitPreamble U (Some (FModuleLikeOp m)) w) = Success"
proof -
  from emitSimulator_wiring [of "simStart w m iot" m U] assms(1,2,4)
  obtain w' where "emitSimulator U (simStart w m iot) = (Success, w')" by auto
  then show ?thesis by (simp add: emitPreamble_types_ok [OF assms(3)])
qed

lemma scalar_generation_ok:
  "fst (emitPreamble sampleUtils (Some (FModuleLikeOp scalarModule)) scalarWrapper) = Success"
  by (rule emitPreamble_scalars_ok [where iot = sampleTypes])
     (simp_all add: portCountInvariant_def scalarWrapper_def scalarFunc_def scalarModule_def
        sampleUtils_emitIOTypes)

lemma emitPreamble_keeps:
  "funcName (snd (emitPreamble U k w)) = funcName w \<and>
   funcOp (snd (emitPreamble U k w)) = funcOp w \<and>
   hsOp (snd (emitPreamble U k w)) = hsOp w"
proof (cases k)
  case None
  then show ?thesis by (simp add: emitPreamble_def)
next
  case (Some op)
  show ?thesis
  proof (cases op)
    case (FModuleLikeOp m)
    obtain ok iot where io: "emitIOTypes U (funcOp w) = (ok, iot)"
      by (cases "emitIOTypes U (funcOp w)")
    show ?thesis
    proof (cases ok)
      case True
      from writes_emitTail obtain st ts where
        "emitTail U (simStart w m iot) = (st, emit ts (simStart w m iot))"
        by (rule writes_run)
      then show ?thesis
        using io True by (simp add: Some FModuleLikeOp emitPreamble_tail)
    next
      case False
      then show ?thesis using io by (simp add: Some FModuleLikeOp emitPreamble_types_fail)
    qed
  next
    case (HandshakeFuncOp hs)
    then show ?thesis using Some by (simp add: emitPreamble_def)
  next
    case (OtherOp n)
    then show ?thesis using Some by (simp add: emitPreamble_def)
  qed
qed

lemma emitPreamble_again:
  "fst (emitPreamble U k (snd (emitPreamble U k w))) = fst (emitPreamble U k w) \<and>
   emitted (snd (emitPreamble U k w)) (snd (emitPreamble U k (snd (emitPreamble U k w)))) =
     emitted w (snd (emitPreamble U k w))"
  using emitPreamble_same [of "snd (emitPreamble U k w)" w U k] emitPreamble_keeps [of U k w]
  by simp

text \<open>
  C6. What \<^verbatim>\<open>emitPreamble\<close> returns and what it appends to the stream are determined by
  the function name, the function, the reference function and the kernel operation: two
  wrappers that agree on these give the same result and the same text, whatever module an
  earlier call left behind, whatever is already in the stream and whatever diagnostics
  were reported; in particular a second call on the wrapper that the first call left
  returns the same result and appends the same text again. When generation succeeds, the text is the I/O types, the aliases, the
  class header, the control wiring, then the text of every argument in the order of the
  argument list, then the text of every result in the order of the result list, then the
  closing of the class and the driver alias.
\<close>

theorem generation_deterministic:
  assumes "funcName w1 = funcName w2" "funcOp w1 = funcOp w2" "hsOp w1 = hsOp w2"
  shows "fst (emitPreamble U k w1) = fst (emitPreamble U k w2)
       \<and> emitted w1 (snd (emitPreamble U k w1)) = emitted w2 (snd (emitPreamble U k w2))
       \<and> fst (emitPreamble U k (snd (emitPreamble U k w1))) = fst (emitPreamble U k w1)
       \<and> emitted (snd (emitPreamble U k w1))
             (snd (emitPreamble U k (snd (emitPreamble U k w1)))) =
           emitted w1 (snd (emitPreamble U k w1))
       \<and> (fst (emitPreamble U k w1) = Success \<longrightarrow>
            (\<exists>m iot a b. k = Some (FModuleLikeOp m) \<and>
               emitted w1 (snd (emitPreamble U k w1)) =
                 Ext iot # aliases (funcName w1) @ classHeader (funcName w1) @ ctrlWiring a b @
                 [Lit ''// --- Software interface\<newline>'', Lit ''// - Input ports\<newline>''] @
                 concat (map (\<lambda>(i, t). inputPortText U (w1\<lparr>firrtlOp := Some m\<rparr>) t i)
                           (enumerate 0 (getInputs (funcOp w1)))) @
                 [Lit ''\<newline>// - Output ports\<newline>''] @
                 concat (map (\<lambda>(i, t). outputPortText U (w1\<lparr>firrtlOp := Some m\<rparr>) t i)
                           (enumerate 0 (getResults (funcOp w1)))) @
                 classFooter @ driverAlias (funcName w1)))"
proof -
  have "\<exists>m iot a b. k = Some (FModuleLikeOp m) \<and>
               emitted w1 (snd (emitPreamble U k w1)) =
                 Ext iot # aliases (funcName w1) @ classHeader (funcName w1) @ ctrlWiring a b @
                 [Lit ''// --- Software interface\<newline>'', Lit ''// - Input ports\<newline>''] @
                 concat (map (\<lambda>(i, t). inputPortText U (w1\<lparr>firrtlOp := Some m\<rparr>) t i)
                           (enumerate 0 (getInputs (funcOp w1)))) @
                 [Lit ''\<newline>// - Output ports\<newline>''] @
                 concat (map (\<lambda>(i, t). outputPortText U (w1\<lparr>firrtlOp := Some m\<rparr>) t i)
                           (enumerate 0 (getResults (funcOp w1)))) @
                 classFooter @ driverAlias (funcName w1)"
    if "fst (emitPreamble U k w1) = Success"
  proof -
    from emitPreamble_Success [OF that] obtain m iot a b where
      "k = Some (FModuleLikeOp m)"
      "emitted w1 (snd (emitPreamble U k w1)) =
             Ext iot # aliases (funcName w1) @ classHeader (funcName w1) @ ctrlWiring a b @
             [Lit ''// --- Software interface\<newline>''] @
             portsText U (w1\<lparr>firrtlOp := Some m\<rparr>) @ driverAlias (funcName w1)"
      by blast
    then show ?thesis
      by (intro exI [of _ m] exI [of _ iot] exI [of _ a] exI [of _ b]) (simp add: portsText_def)
  qed
  then show ?thesis
    using emitPreamble_same [OF assms, of U k] emitPreamble_again [of U k w1] by blast
qed

theorem generation_deterministic_witness:
  "fst (emitPreamble sampleUtils (Some (FModuleLikeOp scalarModule)) staleWrapper) = Success
   \<and> emitted scalarWrapper
       (snd (emitPreamble sampleUtils (Some (FModuleLikeOp scalarModule)) scalarWrapper)) =
     emitted staleWrapper
       (snd (emitPreamble sampleUtils (Some (FModuleLikeOp scalarModule)) staleWrapper))
   \<and> (\<exists>iot a b.
        emitted scalarWrapper
          (snd (emitPreamble sampleUtils (Some (FModuleLikeOp scalarModule)) scalarWrapper)) =
        Ext iot # aliases ''f'' @ classHeader ''f'' @ ctrlWiring a b @
        [Lit ''// --- Software interface\<newline>'', Lit ''// - Input ports\<newline>''] @
        inputPortText sampleUtils scalarWrapper (IntegerType 32) 0 @
        [Lit ''\<newline>// - Output ports\<newline>''] @
        outputPortText sampleUtils scalarWrapper (IntegerType 32) 0 @
        classFooter @ driverAlias ''f'')"
proof -
  let ?k = "Some (FModuleLikeOp scalarModule)"
  have same: "scalarWrapper\<lparr>firrtlOp := Some scalarModule\<rparr> = scalarWrapper"
    by (simp add: scalarWrapper_def)
  have f: "funcName scalarWrapper = ''f''" "getInputs (funcOp scalarWrapper) = [IntegerType 32]"
    "getResults (funcOp scalarWrapper) = [IntegerType 32]"
    by (simp_all add: scalarWrapper_def scalarFunc_def)
  have hyps: "funcName scalarWrapper = funcName staleWrapper"
    "funcOp scalarWrapper = funcOp staleWrapper" "hsOp scalarWrapper = hsOp staleWrapper"
    by (simp_all add: staleWrapper_def)
  note d = generation_deterministic [OF hyps, of sampleUtils ?k]
  from d have st: "fst (emitPreamble sampleUtils ?k staleWrapper) = Success"
    using scalar_generation_ok by simp
  from d have em: "emitted scalarWrapper (snd (emitPreamble sampleUtils ?k scalarWrapper)) =
     emitted staleWrapper (snd (emitPreamble sampleUtils ?k staleWrapper))"
    by simp
  from d scalar_generation_ok obtain m iot a b where
    m: "?k = Some (FModuleLikeOp m)" and
    e: "emitted scalarWrapper (snd (emitPreamble sampleUtils ?k scalarWrapper)) =
          Ext iot # aliases (funcName scalarWrapper) @ classHeader (funcName scalarWrapper) @
          ctrlWiring a b @
          [Lit ''// --- Software interface\<newline>'', Lit ''// - Input ports\<newline>''] @
          concat (map (\<lambda>(i, t). inputPortText sampleUtils (scalarWrapper\<lparr>firrtlOp := Some m\<rparr>) t i)
                    (enumerate 0 (getInputs (funcOp scalarWrapper)))) @
          [Lit ''\<newline>// - Output ports\<newline>''] @
          concat (map (\<lambda>(i, t). outputPortText sampleUtils (scalarWrapper\<lparr>firrtlOp := Some m\<rparr>) t i)
                    (enumerate 0 (getResults (funcOp scalarWrapper)))) @
          classFooter @ driverAlias (funcName scalarWrapper)"
    by blast
  from m have "m = scalarModule" by simp
  with e have "emitted scalarWrapper (snd (emitPreamble sampleUtils ?k scalarWrapper)) =
        Ext iot # aliases ''f'' @ classHeader ''f'' @ ctrlWiring a b @
        [Lit ''// --- Software interface\<newline>'', Lit ''// - Input ports\<newline>''] @
        inputPortText sampleUtils scalarWrapper (IntegerType 32) 0 @
        [Lit ''\<newline>// - Output ports\<newline>''] @
        outputPortText sampleUtils scalarWrapper (IntegerType 32) 0 @
        classFooter @ driverAlias ''f''"
    by (simp add: same f)
  with st em show ?thesis by blast
qed

section \<open>The first failure stops generation\<close>

lemma forEach_enumerate_first_failure:
  assumes "n < length xs" "forEach body (enumerate 0 (take n xs)) w = (Success, w1)"
    and "body (xs ! n) n w1 = (st, w2)" "st \<noteq> Success"
  shows "forEach body (enumerate 0 xs) w = (st, w2)"
proof -
  have "xs = take n xs @ xs ! n # drop (Suc n) xs"
    using assms(1) by (simp add: id_take_nth_drop)
  then have "enumerate 0 xs =
      enumerate 0 (take n xs) @ (n, xs ! n) # enumerate (Suc n) (drop (Suc n) xs)"
    using assms(1) by (metis add_0 enumerate_append_eq enumerate_simps(2) length_take min.absorb2 less_imp_le)
  then show ?thesis
    using forEach_first_failure [OF assms(2-4)] by simp
qed

lemma emitPorts_inputs_fail:
  "forEach (emitInputPort U) (enumerate 0 (getInputs ft)) (emit [Lit ''// - Input ports\<newline>''] w) =
     (st, w') \<Longrightarrow> st \<noteq> Success \<Longrightarrow> emitPorts U ft w = (st, w')"
  by (cases st) (simp_all add: emitPorts_def)

lemma emitPorts_outputs_fail:
  "forEach (emitInputPort U) (enumerate 0 (getInputs ft)) (emit [Lit ''// - Input ports\<newline>''] w) =
     (Success, w1) \<Longrightarrow>
   forEach (emitOutputPort U) (enumerate 0 (getResults ft))
     (emit [Lit ''\<newline>// - Output ports\<newline>''] w1) = (st, w') \<Longrightarrow>
   st \<noteq> Success \<Longrightarrow> emitPorts U ft w = (st, w')"
  by (cases st) (simp_all add: emitPorts_def)

lemma emitPreamble_simulator_fail:
  "emitIOTypes U (funcOp w) = (True, iot) \<Longrightarrow> emitSimulator U (simStart w m iot) = (st, w') \<Longrightarrow>
   st \<noteq> Success \<Longrightarrow> emitPreamble U (Some (FModuleLikeOp m)) w = (st, w')"
  by (cases st) (simp_all add: emitPreamble_types_ok)

text \<open>
  C8. A step that does not succeed ends the generation with its own result and in the
  state it left: when the I/O types fail, \<^verbatim>\<open>emitPreamble\<close> fails after their text;
  when \<^verbatim>\<open>emitSimulator\<close> does not succeed, \<^verbatim>\<open>emitPreamble\<close> returns its result and
  state, so the driver alias is not written; \<^verbatim>\<open>emitSimulator\<close> returns what the
  software interface returns; the software interface returns the result and state of the
  argument loop or of the result loop that did not succeed; and each loop returns the
  result and state of the first port that did not succeed, whatever ports follow it.
\<close>

theorem first_failure_stops:
  "(emitIOTypes U (funcOp w) = (False, iot) \<longrightarrow>
      emitPreamble U (Some (FModuleLikeOp m)) w = (Failure, emit [Ext iot] w))
 \<and> (emitIOTypes U (funcOp w) = (True, iot) \<and> emitSimulator U (simStart w m iot) = (st, w') \<and>
    st \<noteq> Success \<longrightarrow>
      emitPreamble U (Some (FModuleLikeOp m)) w = (st, w'))
 \<and> (getInputName w (inCtrlIdx w) = Inr a \<and> getResName w (length (getResults (funcOp w))) = Inr b \<and>
    emitPorts U (funcOp w)
      (emit (classHeader (funcName w) @ ctrlWiring a b @
             [Lit ''// --- Software interface\<newline>'']) w) = (st, w') \<longrightarrow>
      emitSimulator U w = (st, w'))
 \<and> (forEach (emitInputPort U) (enumerate 0 (getInputs ft))
      (emit [Lit ''// - Input ports\<newline>''] w) = (st, w') \<and> st \<noteq> Success \<longrightarrow>
      emitPorts U ft w = (st, w'))
 \<and> (forEach (emitInputPort U) (enumerate 0 (getInputs ft))
      (emit [Lit ''// - Input ports\<newline>''] w) = (Success, w1) \<and>
    forEach (emitOutputPort U) (enumerate 0 (getResults ft))
      (emit [Lit ''\<newline>// - Output ports\<newline>''] w1) = (st, w') \<and> st \<noteq> Success \<longrightarrow>
      emitPorts U ft w = (st, w'))
 \<and> (n < length ts \<and> forEach (emitInputPort U) (enumerate 0 (take n ts)) w = (Success, w1) \<and>
    emitInputPort U (ts ! n) n w1 = (st, w') \<and> st \<noteq> Success \<longrightarrow>
      forEach (emitInputPort U) (enumerate 0 ts) w = (st, w'))
 \<and> (n < length ts \<and> forEach (emitOutputPort U) (enumerate 0 (take n ts)) w = (Success, w1) \<and>
    emitOutputPort U (ts ! n) n w1 = (st, w') \<and> st \<noteq> Success \<longrightarrow>
      forEach (emitOutputPort U) (enumerate 0 ts) w = (st, w'))"
  using emitPreamble_types_fail [of U w iot m] emitPreamble_simulator_fail [of U w iot m st w']
    emitSimulator_emitPorts [of w a b U] emitPorts_inputs_fail [of U ft w st w']
    emitPorts_outputs_fail [of U ft w w1 st w']
    forEach_enumerate_first_failure [of n ts "emitInputPort U" w w1 st w']
    forEach_enumerate_first_failure [of n ts "emitOutputPort U" w w1 st w']
  by simp

theorem first_failure_stops_witness:
  "emitPreamble sampleUtils (Some (FModuleLikeOp mixedModule)) mixedWrapper =
     (Halted (AssertionFailure ''Only support unidimensional memories''),
      emit (classHeader ''f'' @ ctrlWiring ''inCtrl'' ''outCtrl'' @
            [Lit ''// --- Software interface\<newline>'', Lit ''// - Input ports\<newline>''])
        (simStart mixedWrapper mixedModule sampleTypes))
   \<and> emitPreamble (sampleUtils\<lparr>emitIOTypes := \<lambda>f. (False, ''unsupported'')\<rparr>)
         (Some (FModuleLikeOp mixedModule)) mixedWrapper =
     (Failure, emit [Ext ''unsupported''] mixedWrapper)"
proof -
  let ?st = "Halted (AssertionFailure ''Only support unidimensional memories'')"
  let ?W0 = "simStart mixedWrapper mixedModule sampleTypes"
  let ?W2 = "emit (classHeader ''f'' @ ctrlWiring ''inCtrl'' ''outCtrl'' @
                   [Lit ''// --- Software interface\<newline>'']) ?W0"
  let ?W3 = "emit [Lit ''// - Input ports\<newline>''] ?W2"
  have 1: "forEach (emitInputPort sampleUtils) (enumerate 0 (getInputs mixedFunc)) ?W3 = (?st, ?W3)"
    using first_failure_stops [where U = sampleUtils and w = ?W3 and ?w1.0 = ?W3 and n = 0
        and ts = "getInputs mixedFunc" and st = ?st and w' = ?W3]
    by (simp add: mixedFunc_def emitInputPort_def emitExtMemPort_def)
  have 2: "emitPorts sampleUtils mixedFunc ?W2 = (?st, ?W3)"
    using first_failure_stops [where U = sampleUtils and w = ?W2 and ft = mixedFunc
        and st = ?st and w' = ?W3] 1
    by simp
  have names: "getInputName ?W0 (inCtrlIdx ?W0) = Inr ''inCtrl''"
    "getResName ?W0 (length (getResults (funcOp ?W0))) = Inr ''outCtrl''"
    by (simp_all add: getInputName_def getResName_def getPortName_def getPort_def inCtrlIdx_def
        mixedWrapper_def mixedFunc_def mixedModule_def u32_def)
  have 3: "emitSimulator sampleUtils ?W0 = (?st, ?W3)"
    using first_failure_stops [where U = sampleUtils and w = ?W0 and a = "''inCtrl''"
        and b = "''outCtrl''" and st = ?st and w' = ?W3] 2 names
    by (simp add: mixedWrapper_def)
  have 4: "emitPreamble sampleUtils (Some (FModuleLikeOp mixedModule)) mixedWrapper = (?st, ?W3)"
    using first_failure_stops [where U = sampleUtils and w = mixedWrapper and m = mixedModule
        and iot = sampleTypes and st = ?st and w' = ?W3] 3
    by (simp add: sampleUtils_emitIOTypes)
  have 5: "emitPreamble (sampleUtils\<lparr>emitIOTypes := \<lambda>f. (False, ''unsupported'')\<rparr>)
         (Some (FModuleLikeOp mixedModule)) mixedWrapper =
     (Failure, emit [Ext ''unsupported''] mixedWrapper)"
    using first_failure_stops [where U = "sampleUtils\<lparr>emitIOTypes := \<lambda>f. (False, ''unsupported'')\<rparr>"
        and w = mixedWrapper and m = mixedModule and iot = "''unsupported''"]
    by simp
  from 4 5 show ?thesis by simp
qed

end
